theory Spec2Isabelle
  imports Complex_Main
begin

section \<open>Data model\<close>

text \<open>
  The services keep four collections in \<^verbatim>\<open>localStorage\<close>, each as one JSON array under a
  fixed key, and every operation is a complete read-modify-write of one collection.
  A JavaScript \<^verbatim>\<open>number\<close> that counts stock is an \<open>int\<close> (the quantities of the data
  model are integers), a \<^verbatim>\<open>number\<close> that is money is a \<open>real\<close> (exact arithmetic: rounding,
  NaN and the infinities of IEEE doubles are outside this model). An optional property is
  an \<open>option\<close>, \<open>None\<close> being the absent property (JSON drops \<^verbatim>\<open>undefined\<close>).
  Field names carry a prefix because record fields share one name space.
\<close>

datatype debt_type = Receivable | Payable

datatype debt_status = Pending | Paid | Overdue

datatype transaction_type = Inflow | Outflow

datatype frequency = Once | Monthly | Yearly

text \<open>\<^verbatim>\<open>src/types/inventory.ts\<close>: \<^verbatim>\<open>ProductVariant\<close> and \<^verbatim>\<open>Product\<close>.\<close>

record ProductVariant =
  v_id :: string
  v_name :: string
  v_quantity :: int
  v_sku :: "string option"

record Product =
  p_id :: string
  p_name :: string
  p_description :: "string option"
  p_image :: "string option"
  p_price :: real
  p_totalQuantity :: int
  p_hasVariants :: bool
  p_variants :: "ProductVariant list"
  p_category :: "string option"
  p_createdAt :: string
  p_updatedAt :: string

text \<open>
  Modelled from the spec: the declarations of \<^verbatim>\<open>Transaction\<close>, \<^verbatim>\<open>DebtEntry\<close> and \<^verbatim>\<open>Bill\<close>
  (the module \<^verbatim>\<open>types\<close> that declares them is not among the sources). The fields are those
  of the data model of the specification; they are also exactly the properties that the
  object literals of \<^verbatim>\<open>addTransaction\<close>, \<^verbatim>\<open>createDebt\<close>, \<^verbatim>\<open>markAsPaid\<close> and
  \<^verbatim>\<open>createBill\<close> build.
\<close>

record SaleItem =
  i_productId :: string
  i_productName :: string
  i_quantity :: int
  i_variantName :: "string option"
  i_price :: real

record Transaction =
  t_id :: string
  t_type :: transaction_type
  t_description :: string
  t_amount :: real
  t_timestamp :: string
  t_category :: "string option"
  t_paymentMethod :: "string option"
  t_items :: "SaleItem list option"

record DebtEntry =
  d_id :: string
  d_type :: debt_type
  d_counterparty :: string
  d_amount :: real
  d_description :: string
  d_dueDate :: string
  d_status :: debt_status
  d_createdAt :: string
  d_category :: "string option"
  d_notes :: "string option"
  d_paidAt :: "string option"
  d_linkedTransactionId :: "string option"

record Bill =
  b_id :: string
  b_name :: string
  b_amount :: real
  b_dueDate :: string
  b_frequency :: frequency
  b_category :: "string option"
  b_notes :: "string option"
  b_isPaid :: bool
  b_createdAt :: string

text \<open>
  The backing store: the four collections, and the keys of the \<^verbatim>\<open>StorageEvent\<close>s dispatched
  so far, oldest first. The event log makes the order of the writes of one operation
  visible.
\<close>

record storage =
  products :: "Product list"
  transactions :: "Transaction list"
  bills :: "Bill list"
  debts :: "DebtEntry list"
  events :: "string list"

text \<open>
  Every failure of the services is \<^verbatim>\<open>throw new Error(message)\<close>. \<open>DebtNotFound\<close>,
  \<open>ProductNotFound\<close>, \<open>VariantNotFound\<close> and \<open>BillNotFound\<close> are the NotFound kind of the
  specification, \<open>DebtAlreadyPaid\<close> is its AlreadyPaid. A throw does not undo the writes made
  before it, so an operation that can fail returns \<open>(error + result) \<times> storage\<close>: the outcome
  and the storage as the operation left it.
\<close>

datatype error =
  DebtNotFound | DebtAlreadyPaid | ProductNotFound | VariantNotFound | BillNotFound

fun message :: "error \<Rightarrow> string" where
  "message DebtNotFound = ''Debt not found''"
| "message DebtAlreadyPaid = ''Debt is already marked as paid''"
| "message ProductNotFound = ''Product not found''"
| "message VariantNotFound = ''Variant not found''"
| "message BillNotFound = ''Bill not found''"

section \<open>JavaScript helpers\<close>

text \<open>\<^verbatim>\<open>Array.prototype.findIndex\<close>; \<open>None\<close> is the \<^verbatim>\<open>-1\<close> of JavaScript.\<close>

fun findIndex :: "('a \<Rightarrow> bool) \<Rightarrow> 'a list \<Rightarrow> nat option" where
  "findIndex P [] = None"
| "findIndex P (x # xs) = (if P x then Some 0 else map_option Suc (findIndex P xs))"

text \<open>
  \<^verbatim>\<open>String.prototype.trim\<close> on the ASCII white space (the Unicode white space beyond ASCII,
  which takes several bytes in a \<open>string\<close>, is left in place by this model).
\<close>

definition isWhiteSpace :: "char \<Rightarrow> bool" where
  "isWhiteSpace c \<longleftrightarrow> c \<in> set [CHR '' '', CHR 0x09, CHR 0x0A, CHR 0x0B, CHR 0x0C, CHR 0x0D]"

definition trim :: "string \<Rightarrow> string" where
  "trim s = rev (dropWhile isWhiteSpace (rev (dropWhile isWhiteSpace s)))"

text \<open>\<^verbatim>\<open>s?.trim() || undefined\<close>: the empty string is falsy.\<close>

definition trimOrUndefined :: "string option \<Rightarrow> string option" where
  "trimOrUndefined s =
     (case s of None \<Rightarrow> None
      | Some x \<Rightarrow> if trim x = [] then None else Some (trim x))"

text \<open>\<^verbatim>\<open>s?.trim() || current\<close>.\<close>

definition trimOr :: "string option \<Rightarrow> string \<Rightarrow> string" where
  "trimOr s current = (case trimOrUndefined s of None \<Rightarrow> current | Some x \<Rightarrow> x)"

text \<open>\<^verbatim>\<open>String.prototype.toLowerCase\<close> on the ASCII letters, and \<^verbatim>\<open>includes\<close>.\<close>

definition lowerChar :: "char \<Rightarrow> char" where
  "lowerChar c =
     (if (65::nat) \<le> of_char c \<and> of_char c \<le> (90::nat)
      then char_of (of_char c + (32::nat)) else c)"

definition toLowerCase :: "string \<Rightarrow> string" where
  "toLowerCase s = map lowerChar s"

fun includes_js :: "string \<Rightarrow> string \<Rightarrow> bool" where
  "includes_js [] t = (t = [])"
| "includes_js (c # cs) t = (take (length t) (c # cs) = t \<or> includes_js cs t)"

text \<open>
  Dates are stored as strings. \<^verbatim>\<open>new Date(s).getTime()\<close> is a function of the JavaScript
  engine; the operations that compare dates take it as the parameter \<open>dateOf\<close>, in
  milliseconds, \<open>None\<close> being NaN (an invalid date). \<^verbatim>\<open>new Date(s) < now\<close> is false on NaN.
\<close>

definition isBefore :: "(string \<Rightarrow> int option) \<Rightarrow> string \<Rightarrow> int \<Rightarrow> bool" where
  "isBefore dateOf s now = (case dateOf s of None \<Rightarrow> False | Some t \<Rightarrow> t < now)"

text \<open>
  \<^verbatim>\<open>Array.prototype.sort(compareFn)\<close>: a stable sort, here by insertion. \<open>cmp a b \<le> 0\<close> keeps
  \<open>a\<close> before \<open>b\<close>. (Where \<open>cmp\<close> is not a consistent order, which takes a NaN date among valid
  ones, the engine's order is implementation-defined; the result is a permutation in any case.)
\<close>

fun insertBy :: "('a \<Rightarrow> 'a \<Rightarrow> int) \<Rightarrow> 'a \<Rightarrow> 'a list \<Rightarrow> 'a list" where
  "insertBy cmp x [] = [x]"
| "insertBy cmp x (y # ys) = (if cmp x y \<le> 0 then x # y # ys else y # insertBy cmp x ys)"

definition sortBy :: "('a \<Rightarrow> 'a \<Rightarrow> int) \<Rightarrow> 'a list \<Rightarrow> 'a list" where
  "sortBy cmp xs = foldr (insertBy cmp) xs []"

text \<open>\<^verbatim>\<open>new Date(b).getTime() - new Date(a).getTime()\<close>; a NaN result counts as \<open>0\<close>.\<close>

definition newestFirst :: "(string \<Rightarrow> int option) \<Rightarrow> string \<Rightarrow> string \<Rightarrow> int" where
  "newestFirst dateOf a b =
     (case (dateOf b, dateOf a) of (Some tb, Some ta) \<Rightarrow> tb - ta | _ \<Rightarrow> 0)"

section \<open>Transaction ledger (\<^verbatim>\<open>dataService\<close>)\<close>

text \<open>
  \<^verbatim>\<open>generateId()\<close> and \<^verbatim>\<open>new Date().toISOString()\<close> read the clock and the random generator:
  the value each call returns is a parameter of the operation (\<open>newId\<close>, \<open>timestamp\<close>).
  \<^verbatim>\<open>addTransaction\<close> appends and saves, then dispatches the storage event.
\<close>

definition saveTransactions :: "Transaction list \<Rightarrow> storage \<Rightarrow> storage" where
  "saveTransactions ts w = w\<lparr>transactions := ts\<rparr>"

definition addTransaction ::
  "string \<Rightarrow> string \<Rightarrow> transaction_type \<Rightarrow> string \<Rightarrow> real \<Rightarrow> string option \<Rightarrow> string option \<Rightarrow>
   SaleItem list option \<Rightarrow> storage \<Rightarrow> Transaction \<times> storage" where
  "addTransaction newId timestamp type description amount category paymentMethod items w =
     (let newTransaction = \<lparr>t_id = newId, t_type = type, t_description = description,
            t_amount = amount, t_timestamp = timestamp, t_category = category,
            t_paymentMethod = paymentMethod, t_items = items\<rparr>;
          w1 = saveTransactions (transactions w @ [newTransaction]) w
      in (newTransaction, w1\<lparr>events := events w1 @ [''cashier_transactions'']\<rparr>))"

section \<open>Debt manager (\<^verbatim>\<open>debtService\<close>)\<close>

definition saveDebts :: "DebtEntry list \<Rightarrow> storage \<Rightarrow> storage" where
  "saveDebts ds w = w\<lparr>debts := ds, events := events w @ [''debts'']\<rparr>"

text \<open>The callback of the \<^verbatim>\<open>map\<close> of \<^verbatim>\<open>getAllDebts\<close>.\<close>

definition deriveOverdue :: "(string \<Rightarrow> int option) \<Rightarrow> int \<Rightarrow> DebtEntry \<Rightarrow> DebtEntry" where
  "deriveOverdue dateOf now debt =
     (if d_status debt = Pending \<and> isBefore dateOf (d_dueDate debt) now
      then debt\<lparr>d_status := Overdue\<rparr> else debt)"

record DebtFilters =
  f_type :: "debt_type option"
  f_status :: "debt_status option"
  f_searchTerm :: "string option"

definition matchesTerm :: "string \<Rightarrow> DebtEntry \<Rightarrow> bool" where
  "matchesTerm term d \<longleftrightarrow>
     includes_js (toLowerCase (d_counterparty d)) term \<or>
     includes_js (toLowerCase (d_description d)) term \<or>
     (case d_category d of None \<Rightarrow> False | Some c \<Rightarrow> includes_js (toLowerCase c) term)"

text \<open>
  \<^verbatim>\<open>getAllDebts\<close> reads the collection and never saves it: the storage it returns is the
  one it was given.
\<close>

definition getAllDebts ::
  "(string \<Rightarrow> int option) \<Rightarrow> int \<Rightarrow> DebtFilters option \<Rightarrow> storage \<Rightarrow> DebtEntry list \<times> storage" where
  "getAllDebts dateOf now filters w =
     (let ds0 = map (deriveOverdue dateOf now) (debts w);
          ds1 = (case Option.bind filters f_type of None \<Rightarrow> ds0
                 | Some ty \<Rightarrow> filter (\<lambda>d. d_type d = ty) ds0);
          ds2 = (case Option.bind filters f_status of None \<Rightarrow> ds1
                 | Some st \<Rightarrow> filter (\<lambda>d. d_status d = st) ds1);
          ds3 = (case Option.bind filters f_searchTerm of None \<Rightarrow> ds2
                 | Some s \<Rightarrow> if s = [] then ds2
                            else filter (matchesTerm (toLowerCase s)) ds2)
      in (sortBy (\<lambda>a b. newestFirst dateOf (d_createdAt a) (d_createdAt b)) ds3, w))"

definition getDebtById :: "string \<Rightarrow> storage \<Rightarrow> DebtEntry option" where
  "getDebtById debtId w = find (\<lambda>d. d_id d = debtId) (debts w)"

definition createDebt ::
  "(string \<Rightarrow> int option) \<Rightarrow> int \<Rightarrow> string \<Rightarrow> string \<Rightarrow> debt_type \<Rightarrow> string \<Rightarrow> real \<Rightarrow> string \<Rightarrow>
   string \<Rightarrow> string option \<Rightarrow> string option \<Rightarrow> storage \<Rightarrow> DebtEntry \<times> storage" where
  "createDebt dateOf now newId timestamp type counterparty amount description dueDate
       category notes w =
     (let newDebt = \<lparr>d_id = newId, d_type = type, d_counterparty = trim counterparty,
            d_amount = amount, d_description = trim description, d_dueDate = dueDate,
            d_status = (if isBefore dateOf dueDate now then Overdue else Pending),
            d_createdAt = timestamp, d_category = trimOrUndefined category,
            d_notes = trimOrUndefined notes, d_paidAt = None, d_linkedTransactionId = None\<rparr>
      in (newDebt, saveDebts (debts w @ [newDebt]) w))"

text \<open>
  The payload of \<^verbatim>\<open>updateDebt\<close>:
  \<^verbatim>\<open>Partial<Omit<DebtEntry, 'id' | 'createdAt' | 'linkedTransactionId' | 'paidAt'>>\<close>.
  \<open>None\<close> is a property the payload does not carry.
\<close>

record DebtUpdates =
  ud_type :: "debt_type option"
  ud_counterparty :: "string option"
  ud_amount :: "real option"
  ud_description :: "string option"
  ud_dueDate :: "string option"
  ud_status :: "debt_status option"
  ud_category :: "string option"
  ud_notes :: "string option"

definition orElse :: "'a option \<Rightarrow> 'a \<Rightarrow> 'a" where
  "orElse u current = (case u of None \<Rightarrow> current | Some x \<Rightarrow> x)"

definition updateDebt ::
  "(string \<Rightarrow> int option) \<Rightarrow> int \<Rightarrow> string \<Rightarrow> DebtUpdates \<Rightarrow> storage \<Rightarrow>
   (error + DebtEntry) \<times> storage" where
  "updateDebt dateOf now debtId updates w =
     (case findIndex (\<lambda>d. d_id d = debtId) (debts w) of
        None \<Rightarrow> (Inl DebtNotFound, w)
      | Some debtIndex \<Rightarrow>
          (let current = debts w ! debtIndex;
               merged = current\<lparr>
                 d_type := orElse (ud_type updates) (d_type current),
                 d_amount := orElse (ud_amount updates) (d_amount current),
                 d_dueDate := orElse (ud_dueDate updates) (d_dueDate current),
                 d_status := orElse (ud_status updates) (d_status current),
                 d_counterparty := trimOr (ud_counterparty updates) (d_counterparty current),
                 d_description := trimOr (ud_description updates) (d_description current),
                 d_category := trimOrUndefined (ud_category updates),
                 d_notes := trimOrUndefined (ud_notes updates)\<rparr>;
               updatedDebt =
                 (case ud_dueDate updates of
                    None \<Rightarrow> merged
                  | Some dueDate \<Rightarrow>
                      if dueDate \<noteq> [] \<and> d_status merged = Pending
                      then merged\<lparr>d_status :=
                             (if isBefore dateOf dueDate now then Overdue else Pending)\<rparr>
                      else merged)
           in (Inr updatedDebt, saveDebts ((debts w)[debtIndex := updatedDebt]) w)))"

definition deleteDebt :: "string \<Rightarrow> storage \<Rightarrow> storage" where
  "deleteDebt debtId w = saveDebts (filter (\<lambda>d. d_id d \<noteq> debtId) (debts w)) w"

text \<open>
  \<^verbatim>\<open>markAsPaid\<close>: \<open>txId\<close> and \<open>txTime\<close> are the id and the timestamp that
  \<^verbatim>\<open>addTransaction\<close> generates, \<open>paidTime\<close> is \<^verbatim>\<open>new Date().toISOString()\<close> afterwards. The
  list \<open>debts w\<close> was read before the transaction was added, and \<^verbatim>\<open>addTransaction\<close> does not
  write the debts.
\<close>

definition markAsPaid ::
  "string \<Rightarrow> string \<Rightarrow> string \<Rightarrow> string \<Rightarrow> storage \<Rightarrow>
   (error + DebtEntry \<times> Transaction) \<times> storage" where
  "markAsPaid txId txTime paidTime debtId w =
     (case findIndex (\<lambda>d. d_id d = debtId) (debts w) of
        None \<Rightarrow> (Inl DebtNotFound, w)
      | Some debtIndex \<Rightarrow>
          (let debt = debts w ! debtIndex in
           if d_status debt = Paid then (Inl DebtAlreadyPaid, w)
           else
             (let transactionType = (if d_type debt = Receivable then Inflow else Outflow);
                  transactionDescription =
                    (if d_type debt = Receivable
                     then ''Cobro: '' @ d_counterparty debt @ '' - '' @ d_description debt
                     else ''Pago: '' @ d_counterparty debt @ '' - '' @ d_description debt);
                  (transaction, w1) =
                    addTransaction txId txTime transactionType transactionDescription
                      (d_amount debt) (d_category debt) None None w;
                  updatedDebt = debt\<lparr>d_status := Paid, d_paidAt := Some paidTime,
                                  d_linkedTransactionId := Some (t_id transaction)\<rparr>
              in (Inr (updatedDebt, transaction),
                  saveDebts ((debts w)[debtIndex := updatedDebt]) w1))))"

section \<open>Bill manager (\<^verbatim>\<open>dataService\<close>)\<close>

definition saveBills :: "Bill list \<Rightarrow> storage \<Rightarrow> storage" where
  "saveBills bs w = w\<lparr>bills := bs, events := events w @ [''app_bills'']\<rparr>"

text \<open>The payload of \<^verbatim>\<open>updateBill\<close>: \<^verbatim>\<open>Partial<Omit<Bill, 'id' | 'createdAt'>>\<close>.\<close>

record BillUpdates =
  ub_name :: "string option"
  ub_amount :: "real option"
  ub_dueDate :: "string option"
  ub_frequency :: "frequency option"
  ub_category :: "string option"
  ub_notes :: "string option"
  ub_isPaid :: "bool option"

definition updateBill :: "string \<Rightarrow> BillUpdates \<Rightarrow> storage \<Rightarrow> (error + Bill) \<times> storage" where
  "updateBill billId updates w =
     (case findIndex (\<lambda>b. b_id b = billId) (bills w) of
        None \<Rightarrow> (Inl BillNotFound, w)
      | Some billIndex \<Rightarrow>
          (let current = bills w ! billIndex;
               updatedBill = current\<lparr>
                 b_amount := orElse (ub_amount updates) (b_amount current),
                 b_dueDate := orElse (ub_dueDate updates) (b_dueDate current),
                 b_frequency := orElse (ub_frequency updates) (b_frequency current),
                 b_isPaid := orElse (ub_isPaid updates) (b_isPaid current),
                 b_name := trimOr (ub_name updates) (b_name current),
                 b_category := trimOrUndefined (ub_category updates),
                 b_notes := trimOrUndefined (ub_notes updates)\<rparr>
           in (Inr updatedBill, saveBills ((bills w)[billIndex := updatedBill]) w)))"

text \<open>
  \<^verbatim>\<open>toggleBillPaid(billId, createTransaction = true)\<close>: \<open>None\<close> is the omitted argument.
  \<^verbatim>\<open>bill.category || 'Gastos Fijos'\<close> takes the default for an absent category and for the
  empty string, which is falsy (\<^verbatim>\<open>createBill\<close> and \<^verbatim>\<open>updateBill\<close> never store the empty
  string).
\<close>

definition categoryOrDefault :: "string option \<Rightarrow> string" where
  "categoryOrDefault c =
     (case c of None \<Rightarrow> ''Gastos Fijos''
      | Some x \<Rightarrow> if x = [] then ''Gastos Fijos'' else x)"

definition toggleBillPaid ::
  "string \<Rightarrow> string \<Rightarrow> string \<Rightarrow> bool option \<Rightarrow> storage \<Rightarrow> (error + Bill) \<times> storage" where
  "toggleBillPaid txId txTime billId createTransaction w =
     (case findIndex (\<lambda>b. b_id b = billId) (bills w) of
        None \<Rightarrow> (Inl BillNotFound, w)
      | Some billIndex \<Rightarrow>
          (let bill = bills w ! billIndex;
               newPaidStatus = (\<not> b_isPaid bill);
               toggled = bill\<lparr>b_isPaid := newPaidStatus\<rparr>;
               w1 = saveBills ((bills w)[billIndex := toggled]) w;
               w2 = (if newPaidStatus \<and> orElse createTransaction True
                     then snd (addTransaction txId txTime Outflow (''Pago: '' @ b_name bill)
                                 (b_amount bill) (Some (categoryOrDefault (b_category bill)))
                                 None None w1)
                     else w1)
           in (Inr toggled, w2)))"

section \<open>Product catalog (\<^verbatim>\<open>inventoryService\<close>)\<close>

definition saveProducts :: "Product list \<Rightarrow> storage \<Rightarrow> storage" where
  "saveProducts ps w = w\<lparr>products := ps, events := events w @ [''inventory_products'']\<rparr>"

definition calculateTotalQuantity :: "bool \<Rightarrow> ProductVariant list \<Rightarrow> int \<Rightarrow> int" where
  "calculateTotalQuantity hasVariants variants standaloneQty =
     (if hasVariants \<and> length variants > 0
      then foldl (\<lambda>sum v. sum + v_quantity v) 0 variants
      else standaloneQty)"

text \<open>\<^verbatim>\<open>Omit<ProductVariant, 'id'>\<close>, the variants handed to \<^verbatim>\<open>createProduct\<close>.\<close>

record NewVariant =
  nv_name :: string
  nv_quantity :: int
  nv_sku :: "string option"

text \<open>
  \<^verbatim>\<open>createProduct\<close>: \<open>variantId k\<close> is the id generated for the variant at index \<open>k\<close>,
  \<open>newId\<close> the id of the product, \<open>createdTime\<close> and \<open>updatedTime\<close> the two readings of the
  clock. The last three arguments have the defaults \<^verbatim>\<open>false\<close>, \<^verbatim>\<open>[]\<close> and \<^verbatim>\<open>0\<close>.
\<close>

definition createProduct ::
  "(nat \<Rightarrow> string) \<Rightarrow> string \<Rightarrow> string \<Rightarrow> string \<Rightarrow> string \<Rightarrow> real \<Rightarrow> string option \<Rightarrow>
   string option \<Rightarrow> string option \<Rightarrow> bool option \<Rightarrow> NewVariant list option \<Rightarrow> int option \<Rightarrow>
   storage \<Rightarrow> Product \<times> storage" where
  "createProduct variantId newId createdTime updatedTime name price description imageArg category
       hasVariantsArg variantsArg standaloneQuantityArg w =
     (let hasVariants = orElse hasVariantsArg False;
          variants = orElse variantsArg [];
          standaloneQuantity = orElse standaloneQuantityArg 0;
          productVariants =
            map (\<lambda>(k, v). \<lparr>v_id = variantId k, v_name = nv_name v,
                            v_quantity = nv_quantity v, v_sku = nv_sku v\<rparr>)
              (enumerate 0 variants);
          totalQuantity = calculateTotalQuantity hasVariants productVariants standaloneQuantity;
          newProduct = \<lparr>p_id = newId, p_name = trim name,
            p_description = map_option trim description, p_image = imageArg, p_price = price,
            p_totalQuantity = totalQuantity, p_hasVariants = hasVariants,
            p_variants = productVariants, p_category = map_option trim category,
            p_createdAt = createdTime, p_updatedAt = updatedTime\<rparr>
      in (newProduct, saveProducts (products w @ [newProduct]) w))"

text \<open>
  The payload of \<^verbatim>\<open>updateProduct\<close>. (The spread \<^verbatim>\<open>...updates\<close> also copies
  \<^verbatim>\<open>standaloneQuantity\<close> into the stored object; \<^verbatim>\<open>Product\<close> does not declare that property
  and nothing reads it, so the record does not carry it.)
\<close>

record ProductUpdates =
  up_name :: "string option"
  up_description :: "string option"
  up_image :: "string option"
  up_price :: "real option"
  up_category :: "string option"
  up_hasVariants :: "bool option"
  up_variants :: "ProductVariant list option"
  up_standaloneQuantity :: "int option"

definition updateProduct ::
  "string \<Rightarrow> string \<Rightarrow> ProductUpdates \<Rightarrow> storage \<Rightarrow> (error + Product) \<times> storage" where
  "updateProduct timestamp productId updates w =
     (case findIndex (\<lambda>p. p_id p = productId) (products w) of
        None \<Rightarrow> (Inl ProductNotFound, w)
      | Some productIndex \<Rightarrow>
          (let currentProduct = products w ! productIndex;
               hasVariants = orElse (up_hasVariants updates) (p_hasVariants currentProduct);
               variants = orElse (up_variants updates) (p_variants currentProduct);
               standaloneQty =
                 orElse (up_standaloneQuantity updates) (p_totalQuantity currentProduct);
               updatedProduct = currentProduct\<lparr>
                 p_image := (case up_image updates of None \<Rightarrow> p_image currentProduct
                             | Some i \<Rightarrow> Some i),
                 p_price := orElse (up_price updates) (p_price currentProduct),
                 p_name := trimOr (up_name updates) (p_name currentProduct),
                 p_description := map_option trim (up_description updates),
                 p_category := map_option trim (up_category updates),
                 p_hasVariants := hasVariants,
                 p_variants := variants,
                 p_totalQuantity := calculateTotalQuantity hasVariants variants standaloneQty,
                 p_updatedAt := timestamp\<rparr>
           in (Inr updatedProduct,
               saveProducts ((products w)[productIndex := updatedProduct]) w)))"

definition deleteProduct :: "string \<Rightarrow> storage \<Rightarrow> storage" where
  "deleteProduct productId w = saveProducts (filter (\<lambda>p. p_id p \<noteq> productId) (products w)) w"

definition updateVariantQuantity ::
  "string \<Rightarrow> string \<Rightarrow> string \<Rightarrow> int \<Rightarrow> storage \<Rightarrow> (error + Product) \<times> storage" where
  "updateVariantQuantity timestamp productId variantId newQuantity w =
     (case findIndex (\<lambda>p. p_id p = productId) (products w) of
        None \<Rightarrow> (Inl ProductNotFound, w)
      | Some productIndex \<Rightarrow>
          (let product = products w ! productIndex in
           case findIndex (\<lambda>v. v_id v = variantId) (p_variants product) of
             None \<Rightarrow> (Inl VariantNotFound, w)
           | Some variantIndex \<Rightarrow>
               (let variants =
                      (p_variants product)[variantIndex :=
                         (p_variants product ! variantIndex)\<lparr>v_quantity := max 0 newQuantity\<rparr>];
                    updated = product\<lparr>
                      p_variants := variants,
                      p_totalQuantity := foldl (\<lambda>sum v. sum + v_quantity v) 0 variants,
                      p_updatedAt := timestamp\<rparr>
                in (Inr updated, saveProducts ((products w)[productIndex := updated]) w))))"

definition getProductById :: "string \<Rightarrow> storage \<Rightarrow> Product option" where
  "getProductById productId w = find (\<lambda>p. p_id p = productId) (products w)"

section \<open>Sale workflow (\<^verbatim>\<open>NewSaleForm\<close>)\<close>

text \<open>
  The form holds \<^verbatim>\<open>products\<close>, the catalog as it was loaded (\<open>snapshot\<close> below), and
  \<^verbatim>\<open>productQuantities\<close>, an object keyed by product id. \<^verbatim>\<open>Object.entries\<close> lists its
  properties in insertion order (a generated id is never an array index), so it is an
  association list.
\<close>

record LineItem =
  l_quantity :: int
  l_selectedVariantId :: "string option"

type_synonym ProductQuantity = "(string \<times> LineItem) list"

text \<open>An optional string in a condition: \<^verbatim>\<open>undefined\<close> and the empty string are falsy.\<close>

definition truthy :: "string option \<Rightarrow> string option" where
  "truthy s = (case s of None \<Rightarrow> None | Some x \<Rightarrow> if x = [] then None else Some x)"

definition getMaxStock :: "Product \<Rightarrow> string option \<Rightarrow> int" where
  "getMaxStock product variantId =
     (case truthy variantId of
        Some vid \<Rightarrow>
          (case find (\<lambda>v. v_id v = vid) (p_variants product) of
             None \<Rightarrow> 0
           | Some variant \<Rightarrow> v_quantity variant)
      | None \<Rightarrow> p_totalQuantity product)"

definition calculateTotal :: "Product list \<Rightarrow> ProductQuantity \<Rightarrow> real" where
  "calculateTotal snapshot productQuantities =
     foldl (\<lambda>sum (productId, data).
              case find (\<lambda>p. p_id p = productId) snapshot of
                None \<Rightarrow> sum
              | Some product \<Rightarrow> sum + p_price product * real_of_int (l_quantity data))
       0 productQuantities"

definition standaloneUpdate :: "int \<Rightarrow> ProductUpdates" where
  "standaloneUpdate q =
     \<lparr>up_name = None, up_description = None, up_image = None, up_price = None,
      up_category = None, up_hasVariants = None, up_variants = None,
      up_standaloneQuantity = Some q\<rparr>"

text \<open>
  The loop of \<^verbatim>\<open>handleSubmit\<close> that updates the inventory, one entry after the other;
  \<open>stamp k\<close> is the clock reading of the update of entry \<open>k\<close>. A throw of the service
  ends the loop and leaves the earlier updates in the storage.
\<close>

fun updateInventory ::
  "(nat \<Rightarrow> string) \<Rightarrow> Product list \<Rightarrow> nat \<Rightarrow> ProductQuantity \<Rightarrow> storage \<Rightarrow>
   (error + unit) \<times> storage" where
  "updateInventory stamp snapshot k [] w = (Inr (), w)"
| "updateInventory stamp snapshot k ((productId, data) # rest) w =
     (case find (\<lambda>p. p_id p = productId) snapshot of
        None \<Rightarrow> updateInventory stamp snapshot (Suc k) rest w
      | Some product \<Rightarrow>
          (case truthy (l_selectedVariantId data) of
             Some vid \<Rightarrow>
               (case find (\<lambda>v. v_id v = vid) (p_variants product) of
                  None \<Rightarrow> updateInventory stamp snapshot (Suc k) rest w
                | Some variant \<Rightarrow>
                    (case updateVariantQuantity (stamp k) productId vid
                            (v_quantity variant - l_quantity data) w of
                       (Inl e, w1) \<Rightarrow> (Inl e, w1)
                     | (Inr _, w1) \<Rightarrow> updateInventory stamp snapshot (Suc k) rest w1))
           | None \<Rightarrow>
               (case updateProduct (stamp k) productId
                       (standaloneUpdate (p_totalQuantity product - l_quantity data)) w of
                  (Inl e, w1) \<Rightarrow> (Inl e, w1)
                | (Inr _, w1) \<Rightarrow> updateInventory stamp snapshot (Suc k) rest w1)))"

text \<open>A non-negative integer in a template literal.\<close>

function showNat :: "nat \<Rightarrow> string" where
  "showNat n =
     (if n < 10 then [''0123456789'' ! n]
      else showNat (n div 10) @ [''0123456789'' ! (n mod 10)])"
  by pat_completeness auto
termination
  by (relation "measure id") auto

declare showNat.simps [simp del]

definition showInt :: "int \<Rightarrow> string" where
  "showInt i = (if i < 0 then ''-'' @ showNat (nat (- i)) else showNat (nat i))"

text \<open>The object \<^verbatim>\<open>handleSubmit\<close> hands to \<^verbatim>\<open>onAddTransaction\<close>.\<close>

record SaleRequest =
  r_description :: string
  r_amount :: real
  r_type :: transaction_type
  r_paymentMethod :: "string option"
  r_items :: "SaleItem list"

definition saleDescription :: "Product list \<Rightarrow> ProductQuantity \<Rightarrow> string" where
  "saleDescription snapshot productQuantities =
     (case productQuantities of
        [(productId, data)] \<Rightarrow>
          ''Venta: '' @
          (case find (\<lambda>p. p_id p = productId) snapshot of
             None \<Rightarrow> ''undefined'' | Some product \<Rightarrow> p_name product) @
          (if l_quantity data > 1 then '' x'' @ showInt (l_quantity data) else [])
      | _ \<Rightarrow> ''Venta: '' @ showNat (length productQuantities) @ '' productos'')"

definition saleItems :: "Product list \<Rightarrow> ProductQuantity \<Rightarrow> SaleItem list" where
  "saleItems snapshot productQuantities =
     List.map_filter
       (\<lambda>(productId, data).
          case find (\<lambda>p. p_id p = productId) snapshot of
            None \<Rightarrow> None
          | Some product \<Rightarrow>
              Some \<lparr>i_productId = p_id product, i_productName = p_name product,
                    i_quantity = l_quantity data,
                    i_variantName =
                      (case truthy (l_selectedVariantId data) of
                         None \<Rightarrow> None
                       | Some vid \<Rightarrow>
                           map_option v_name (find (\<lambda>v. v_id v = vid) (p_variants product))),
                    i_price = p_price product\<rparr>)
       productQuantities"

text \<open>
  \<^verbatim>\<open>handleSubmit\<close>. \<open>onAddTransaction\<close> is the handler the component receives as a
  property. The outcome \<open>Inr None\<close> is the alert for an empty sale, \<open>Inr (Some request)\<close>
  a completed sale with the request handed to the handler.
\<close>

definition handleSubmit ::
  "(SaleRequest \<Rightarrow> storage \<Rightarrow> storage) \<Rightarrow> (nat \<Rightarrow> string) \<Rightarrow> Product list \<Rightarrow>
   ProductQuantity \<Rightarrow> string \<Rightarrow> storage \<Rightarrow> (error + SaleRequest option) \<times> storage" where
  "handleSubmit onAddTransaction stamp snapshot productQuantities paymentMethod w =
     (let itemCount = length productQuantities in
      if itemCount = 0 then (Inr None, w)
      else
        (let total = calculateTotal snapshot productQuantities in
         case updateInventory stamp snapshot 0 productQuantities w of
           (Inl e, w1) \<Rightarrow> (Inl e, w1)
         | (Inr _, w1) \<Rightarrow>
             (let request = \<lparr>r_description = saleDescription snapshot productQuantities,
                    r_amount = total, r_type = Inflow,
                    r_paymentMethod = truthy (Some paymentMethod),
                    r_items = saleItems snapshot productQuantities\<rparr>
              in (Inr (Some request), onAddTransaction request w1))))"

text \<open>
  Modelled from the spec: the handler that the parent component passes as
  \<^verbatim>\<open>onAddTransaction\<close> (the parent is not among the sources). By the sale workflow of the
  specification the sale creates a single transaction of the ledger from the request, so
  the handler is \<^verbatim>\<open>addTransaction\<close> on the fields of the request; \<open>txId\<close> and \<open>txTime\<close> are
  the id and the timestamp it generates.
\<close>

definition recordSale :: "string \<Rightarrow> string \<Rightarrow> SaleRequest \<Rightarrow> storage \<Rightarrow> storage" where
  "recordSale txId txTime request w =
     snd (addTransaction txId txTime (r_type request) (r_description request)
            (r_amount request) None (r_paymentMethod request) (Some (r_items request)) w)"

text \<open>The stock of one variant of a product, and the value of one line of a sale.\<close>

definition variantStock :: "Product \<Rightarrow> string \<Rightarrow> int option" where
  "variantStock product variantId =
     map_option v_quantity (find (\<lambda>v. v_id v = variantId) (p_variants product))"

definition lineValue :: "storage \<Rightarrow> string \<times> LineItem \<Rightarrow> real" where
  "lineValue w entry =
     (case getProductById (fst entry) w of
        None \<Rightarrow> 0
      | Some product \<Rightarrow> p_price product * real_of_int (l_quantity (snd entry)))"

text \<open>
  A line of a sale is in stock when its quantity is positive and at most the stock that
  \<^verbatim>\<open>getMaxStock\<close> reports for the product and the selected variant; a line without a
  selected variant is a line of a product that is not in variant mode (the form preselects
  the first variant of a product in variant mode). A line is sold when the stock of its
  variant, or the total of its product when no variant is selected, went down by the
  quantity of the line.
\<close>

definition lineInStock :: "Product \<Rightarrow> LineItem \<Rightarrow> bool" where
  "lineInStock product line \<longleftrightarrow>
     0 < l_quantity line \<and>
     l_quantity line \<le> getMaxStock product (l_selectedVariantId line) \<and>
     (truthy (l_selectedVariantId line) = None \<longrightarrow>
        \<not> (p_hasVariants product \<and> p_variants product \<noteq> []))"

definition lineSold :: "LineItem \<Rightarrow> Product \<Rightarrow> Product \<Rightarrow> bool" where
  "lineSold line before after \<longleftrightarrow>
     (case truthy (l_selectedVariantId line) of
        Some vid \<Rightarrow>
          (\<exists>q. variantStock before vid = Some q \<and>
               variantStock after vid = Some (q - l_quantity line))
      | None \<Rightarrow> p_totalQuantity after = p_totalQuantity before - l_quantity line)"

section \<open>A sample storage\<close>

text \<open>
  A small shop, used to run the operations on concrete data: a shirt with the variants S
  and M, a mug without variants, a product that carries a variant although
  \<^verbatim>\<open>hasVariants\<close> is false, three debts, a bill and the transaction that settled the paid
  debt. \<open>sampleDateOf\<close> reads the dates that occur; \<open>sampleNow\<close> lies between 2025 and 2030.
\<close>

definition sampleDateOf :: "string \<Rightarrow> int option" where
  "sampleDateOf s =
     (if s = ''2024-01-01'' then Some 1704067200000
      else if s = ''2025-01-01'' then Some 1735689600000
      else if s = ''2030-01-01'' then Some 1893456000000
      else None)"

definition sampleNow :: int where
  "sampleNow = 1750000000000"

definition sampleVariantId :: "nat \<Rightarrow> string" where
  "sampleVariantId k = ''v'' @ showNat k"

definition sampleStamp :: "nat \<Rightarrow> string" where
  "sampleStamp k = ''2025-06-15T12:00:0'' @ showNat k @ ''.000Z''"

definition shirt :: Product where
  "shirt = \<lparr>p_id = ''p1'', p_name = ''Shirt'', p_description = Some ''Cotton'', p_image = None,
     p_price = 20, p_totalQuantity = 8, p_hasVariants = True,
     p_variants = [\<lparr>v_id = ''v1'', v_name = ''S'', v_quantity = 5, v_sku = None\<rparr>,
                   \<lparr>v_id = ''v2'', v_name = ''M'', v_quantity = 3, v_sku = None\<rparr>],
     p_category = Some ''Ropa'', p_createdAt = ''2025-01-01T00:00:00.000Z'',
     p_updatedAt = ''2025-01-01T00:00:00.000Z''\<rparr>"

definition mug :: Product where
  "mug = \<lparr>p_id = ''p2'', p_name = ''Mug'', p_description = Some ''Blue'', p_image = None,
     p_price = 7, p_totalQuantity = 10, p_hasVariants = False, p_variants = [],
     p_category = Some ''Hogar'', p_createdAt = ''2025-01-02T00:00:00.000Z'',
     p_updatedAt = ''2025-01-02T00:00:00.000Z''\<rparr>"

definition cap :: Product where
  "cap = \<lparr>p_id = ''p3'', p_name = ''Cap'', p_description = None, p_image = None,
     p_price = 9, p_totalQuantity = 5, p_hasVariants = False,
     p_variants = [\<lparr>v_id = ''v0'', v_name = ''U'', v_quantity = 3, v_sku = None\<rparr>],
     p_category = None, p_createdAt = ''2025-01-03T00:00:00.000Z'',
     p_updatedAt = ''2025-01-03T00:00:00.000Z''\<rparr>"

definition debtAcme :: DebtEntry where
  "debtAcme = \<lparr>d_id = ''d1'', d_type = Payable, d_counterparty = ''Acme'', d_amount = 100,
     d_description = ''Fabric'', d_dueDate = ''2024-01-01'', d_status = Pending,
     d_createdAt = ''2023-12-01T00:00:00.000Z'', d_category = Some ''Insumos'',
     d_notes = Some ''net 30'', d_paidAt = None, d_linkedTransactionId = None\<rparr>"

definition debtLopez :: DebtEntry where
  "debtLopez = \<lparr>d_id = ''d2'', d_type = Receivable, d_counterparty = ''Lopez'', d_amount = 40,
     d_description = ''Shirts'', d_dueDate = ''2024-01-01'', d_status = Paid,
     d_createdAt = ''2023-12-02T00:00:00.000Z'', d_category = None, d_notes = None,
     d_paidAt = Some ''2024-01-02T00:00:00.000Z'', d_linkedTransactionId = Some ''t1''\<rparr>"

definition debtRuiz :: DebtEntry where
  "debtRuiz = \<lparr>d_id = ''d3'', d_type = Receivable, d_counterparty = ''Ruiz'', d_amount = 15,
     d_description = ''Mugs'', d_dueDate = ''2024-01-01'', d_status = Overdue,
     d_createdAt = ''2023-12-03T00:00:00.000Z'', d_category = None, d_notes = None,
     d_paidAt = None, d_linkedTransactionId = None\<rparr>"

definition rent :: Bill where
  "rent = \<lparr>b_id = ''b1'', b_name = ''Rent'', b_amount = 300, b_dueDate = ''2030-01-01'',
     b_frequency = Monthly, b_category = None, b_notes = Some ''shop'', b_isPaid = False,
     b_createdAt = ''2025-01-01T00:00:00.000Z''\<rparr>"

definition sampleStore :: storage where
  "sampleStore = \<lparr>products = [shirt, mug, cap],
     transactions = [\<lparr>t_id = ''t1'', t_type = Inflow, t_description = ''Cobro: Lopez - Shirts'',
        t_amount = 40, t_timestamp = ''2024-01-02T00:00:00.000Z'', t_category = None,
        t_paymentMethod = None, t_items = None\<rparr>],
     bills = [rent], debts = [debtAcme, debtLopez, debtRuiz], events = []\<rparr>"

text \<open>Two shirts of size S and three mugs.\<close>

definition sampleSale :: ProductQuantity where
  "sampleSale = [(''p1'', \<lparr>l_quantity = 2, l_selectedVariantId = Some ''v1''\<rparr>),
                 (''p2'', \<lparr>l_quantity = 3, l_selectedVariantId = None\<rparr>)]"

text \<open>
  The storage after one sale of \<open>sampleSale\<close> through the form, and after a second sale of
  the same lines through the same form, whose product list is still the one it loaded.
\<close>

definition afterFirstSale :: storage where
  "afterFirstSale =
     snd (handleSubmit (recordSale ''t2'' ''2025-06-15T12:00:05.000Z'') sampleStamp
            [cap, mug, shirt] sampleSale ''Efectivo'' sampleStore)"

definition afterSecondSale :: storage where
  "afterSecondSale =
     snd (handleSubmit (recordSale ''t3'' ''2025-06-15T12:01:05.000Z'') sampleStamp
            [cap, mug, shirt] sampleSale ''Efectivo'' afterFirstSale)"

text \<open>Two more bills, one of them paid, and a storage that holds the three.\<close>

definition insurance :: Bill where
  "insurance = \<lparr>b_id = ''b2'', b_name = ''Insurance'', b_amount = 120,
     b_dueDate = ''2030-01-01'', b_frequency = Yearly, b_category = Some ''Seguros'',
     b_notes = None, b_isPaid = True, b_createdAt = ''2025-01-02T00:00:00.000Z''\<rparr>"

definition electricity :: Bill where
  "electricity = \<lparr>b_id = ''b3'', b_name = ''Power'', b_amount = 55, b_dueDate = ''2030-01-01'',
     b_frequency = Monthly, b_category = Some ''Servicios'', b_notes = None, b_isPaid = False,
     b_createdAt = ''2025-01-03T00:00:00.000Z''\<rparr>"

definition billStore :: storage where
  "billStore = sampleStore\<lparr>bills := [rent, insurance, electricity]\<rparr>"

definition noProductUpdates :: ProductUpdates where
  "noProductUpdates = \<lparr>up_name = None, up_description = None, up_image = None,
     up_price = None, up_category = None, up_hasVariants = None, up_variants = None,
     up_standaloneQuantity = None\<rparr>"

text \<open>
  The storage after \<^verbatim>\<open>createProduct\<close> has added a scarf in variant mode, with one variant of
  quantity 4 and the standalone quantity 1.
\<close>

definition scarfStore :: storage where
  "scarfStore =
     snd (createProduct sampleVariantId ''p4'' ''2025-01-04T00:00:00.000Z''
            ''2025-01-04T00:00:00.000Z'' ''Scarf'' 12 None None None (Some True)
            (Some [\<lparr>nv_name = ''Red'', nv_quantity = 4, nv_sku = None\<rparr>]) (Some 1) sampleStore)"

definition noDebtUpdates :: DebtUpdates where
  "noDebtUpdates = \<lparr>ud_type = None, ud_counterparty = None, ud_amount = None,
     ud_description = None, ud_dueDate = None, ud_status = None, ud_category = None,
     ud_notes = None\<rparr>"

definition noBillUpdates :: BillUpdates where
  "noBillUpdates = \<lparr>ub_name = None, ub_amount = None, ub_dueDate = None, ub_frequency = None,
     ub_category = None, ub_notes = None, ub_isPaid = None\<rparr>"

section \<open>Facts about the helpers\<close>

lemma findIndex_Some:
  "findIndex P xs = Some i \<Longrightarrow> i < length xs \<and> P (xs ! i) \<and> find P xs = Some (xs ! i)"
proof (induction xs arbitrary: i)
  case Nil
  then show ?case by simp
next
  case (Cons x xs)
  then show ?case by (cases "P x") auto
qed

lemma findIndex_None: "findIndex P xs = None \<longleftrightarrow> (\<forall>x \<in> set xs. \<not> P x)"
  by (induction xs) auto

lemma find_findIndex:
  "find P xs = Some x \<Longrightarrow> \<exists>i. findIndex P xs = Some i \<and> xs ! i = x"
  by (induction xs) (auto split: if_splits)

lemma find_update_same:
  "findIndex P xs = Some i \<Longrightarrow> P y \<Longrightarrow> find P (xs[i := y]) = Some y"
proof (induction xs arbitrary: i)
  case Nil
  then show ?case by simp
next
  case (Cons x xs)
  then show ?case by (cases "P x") auto
qed

lemma find_update_other:
  "\<not> Q (xs ! i) \<Longrightarrow> \<not> Q y \<Longrightarrow> i < length xs \<Longrightarrow> find Q (xs[i := y]) = find Q xs"
proof (induction xs arbitrary: i)
  case Nil
  then show ?case by simp
next
  case (Cons x xs)
  then show ?case by (cases i) auto
qed

lemma find_append_Some: "find P xs = Some x \<Longrightarrow> find P (xs @ ys) = Some x"
  by (induction xs) (auto split: if_splits)

lemma find_filter_keep: "(\<And>x. P x \<Longrightarrow> Q x) \<Longrightarrow> find P (filter Q xs) = find P xs"
  by (induction xs) auto

lemma find_filter_drop: "(\<And>x. P x \<Longrightarrow> \<not> Q x) \<Longrightarrow> find P (filter Q xs) = None"
  by (induction xs) auto

lemma find_Some_set: "find P xs = Some x \<Longrightarrow> x \<in> set xs \<and> P x"
  by (induction xs) (auto split: if_splits)

lemma set_insertBy: "set (insertBy cmp x ys) = insert x (set ys)"
  by (induction ys) auto

lemma set_sortBy: "set (sortBy cmp xs) = set xs"
  by (induction xs) (simp_all add: sortBy_def set_insertBy)

lemma getAllDebts_None:
  "getAllDebts dateOf now None w =
     (sortBy (\<lambda>a b. newestFirst dateOf (d_createdAt a) (d_createdAt b))
        (map (deriveOverdue dateOf now) (debts w)), w)"
  by (simp add: getAllDebts_def)

lemma getAllDebts_reads: "snd (getAllDebts dateOf now filters w) = w"
  by (simp add: getAllDebts_def Let_def)

lemma isBefore_mono: "isBefore dateOf s now \<Longrightarrow> now \<le> later \<Longrightarrow> isBefore dateOf s later"
  by (auto simp: isBefore_def split: option.splits)

text \<open>What \<^verbatim>\<open>updateDebt\<close> stores for the debt it finds.\<close>

lemma updateDebt_found:
  assumes "findIndex (\<lambda>d. d_id d = debtId) (debts w) = Some j"
  shows "\<exists>u. updateDebt dateOf now debtId updates w =
               (Inr u, saveDebts ((debts w)[j := u]) w) \<and>
             d_id u = debtId \<and>
             d_dueDate u = orElse (ud_dueDate updates) (d_dueDate (debts w ! j)) \<and>
             d_status u =
               (let s = orElse (ud_status updates) (d_status (debts w ! j)) in
                case ud_dueDate updates of
                  None \<Rightarrow> s
                | Some dueDate \<Rightarrow>
                    if dueDate \<noteq> [] \<and> s = Pending
                    then (if isBefore dateOf dueDate now then Overdue else Pending) else s) \<and>
             d_category u = trimOrUndefined (ud_category updates) \<and>
             d_notes u = trimOrUndefined (ud_notes updates)"
proof -
  from findIndex_Some[OF assms] have "d_id (debts w ! j) = debtId" by simp
  then show ?thesis
    using assms by (simp add: updateDebt_def Let_def split: option.splits)
qed

lemma updateDebt_other:
  assumes "getDebtById debtId w = Some debt" and "anyId \<noteq> debtId"
  shows "getDebtById debtId (snd (updateDebt dateOf now anyId updates w)) = Some debt"
proof (cases "findIndex (\<lambda>d. d_id d = anyId) (debts w)")
  case None
  then show ?thesis using assms(1) by (simp add: updateDebt_def)
next
  case (Some j)
  from findIndex_Some[OF Some] have j: "j < length (debts w)" "d_id (debts w ! j) = anyId"
    by simp_all
  from updateDebt_found[OF Some] obtain u
    where w': "updateDebt dateOf now anyId updates w = (Inr u, saveDebts ((debts w)[j := u]) w)"
      and idu: "d_id u = anyId"
    by blast
  have "find (\<lambda>d. d_id d = debtId) ((debts w)[j := u]) = find (\<lambda>d. d_id d = debtId) (debts w)"
    using j idu assms(2) by (intro find_update_other) auto
  then show ?thesis using assms(1) by (simp add: w' getDebtById_def saveDebts_def)
qed

lemma updateDebt_same:
  assumes "getDebtById debtId w = Some debt"
  shows "\<exists>u. fst (updateDebt dateOf now debtId updates w) = Inr u \<and>
             getDebtById debtId (snd (updateDebt dateOf now debtId updates w)) = Some u \<and>
             d_dueDate u = orElse (ud_dueDate updates) (d_dueDate debt) \<and>
             d_status u =
               (let s = orElse (ud_status updates) (d_status debt) in
                case ud_dueDate updates of
                  None \<Rightarrow> s
                | Some dueDate \<Rightarrow>
                    if dueDate \<noteq> [] \<and> s = Pending
                    then (if isBefore dateOf dueDate now then Overdue else Pending) else s) \<and>
             d_category u = trimOrUndefined (ud_category updates) \<and>
             d_notes u = trimOrUndefined (ud_notes updates)"
proof -
  from assms obtain j where j: "findIndex (\<lambda>d. d_id d = debtId) (debts w) = Some j"
    and d: "debts w ! j = debt"
    unfolding getDebtById_def by (blast dest: find_findIndex)
  from updateDebt_found[OF j, of dateOf now updates] obtain u
    where u: "updateDebt dateOf now debtId updates w = (Inr u, saveDebts ((debts w)[j := u]) w)"
      "d_id u = debtId"
      "d_dueDate u = orElse (ud_dueDate updates) (d_dueDate (debts w ! j))"
      "d_status u =
               (let s = orElse (ud_status updates) (d_status (debts w ! j)) in
                case ud_dueDate updates of
                  None \<Rightarrow> s
                | Some dueDate \<Rightarrow>
                    if dueDate \<noteq> [] \<and> s = Pending
                    then (if isBefore dateOf dueDate now then Overdue else Pending) else s)"
      "d_category u = trimOrUndefined (ud_category updates)"
      "d_notes u = trimOrUndefined (ud_notes updates)"
    by blast
  have "find (\<lambda>d. d_id d = debtId) ((debts w)[j := u]) = Some u"
    using j u(2) by (intro find_update_same) auto
  then show ?thesis
    using u d by (simp add: getDebtById_def saveDebts_def)
qed

lemma markAsPaid_other:
  assumes "getDebtById debtId w = Some debt" and "anyId \<noteq> debtId"
  shows "getDebtById debtId (snd (markAsPaid txId txTime paidTime anyId w)) = Some debt"
proof (cases "findIndex (\<lambda>d. d_id d = anyId) (debts w)")
  case None
  then show ?thesis using assms(1) by (simp add: markAsPaid_def)
next
  case (Some j)
  from findIndex_Some[OF Some] have j: "j < length (debts w)" "d_id (debts w ! j) = anyId"
    by simp_all
  have "find (\<lambda>d. d_id d = debtId) ((debts w)[j := u]) = find (\<lambda>d. d_id d = debtId) (debts w)"
    if "d_id u = anyId" for u
    using j that assms(2) by (intro find_update_other) auto
  then show ?thesis
    using assms(1) Some j
    by (simp add: markAsPaid_def Let_def addTransaction_def saveTransactions_def
        saveDebts_def getDebtById_def)
qed


lemma foldl_quantity:
  "foldl (\<lambda>sum v. sum + v_quantity v) a vs = a + sum_list (map v_quantity vs)"
  by (induction vs arbitrary: a) auto

lemma calculateTotalQuantity_eq:
  "calculateTotalQuantity hasVariants variants standaloneQty =
     (if hasVariants \<and> variants \<noteq> [] then sum_list (map v_quantity variants)
      else standaloneQty)"
  by (simp add: calculateTotalQuantity_def foldl_quantity)

text \<open>What \<^verbatim>\<open>updateProduct\<close> and \<^verbatim>\<open>updateVariantQuantity\<close> store, and what they leave.\<close>

lemma updateProduct_step:
  assumes "getProductById productId w = Some p"
  shows "\<exists>u w'. updateProduct timestamp productId updates w = (Inr u, w') \<and>
           getProductById productId w' = Some u \<and>
           (\<forall>other. other \<noteq> productId \<longrightarrow> getProductById other w' = getProductById other w) \<and>
           transactions w' = transactions w \<and>
           p_description u = map_option trim (up_description updates) \<and>
           p_category u = map_option trim (up_category updates) \<and>
           p_hasVariants u = orElse (up_hasVariants updates) (p_hasVariants p) \<and>
           p_variants u = orElse (up_variants updates) (p_variants p) \<and>
           p_price u = orElse (up_price updates) (p_price p) \<and>
           p_totalQuantity u =
             calculateTotalQuantity (p_hasVariants u) (p_variants u)
               (orElse (up_standaloneQuantity updates) (p_totalQuantity p))"
proof -
  from assms obtain j where j: "findIndex (\<lambda>p. p_id p = productId) (products w) = Some j"
    and p: "products w ! j = p"
    unfolding getProductById_def by (blast dest: find_findIndex)
  from findIndex_Some[OF j] p have jl: "j < length (products w)" and idp: "p_id p = productId"
    by simp_all
  obtain u w' where r: "updateProduct timestamp productId updates w = (Inr u, w')"
    and w': "w' = saveProducts ((products w)[j := u]) w" and idu: "p_id u = productId"
    and fields: "p_description u = map_option trim (up_description updates)"
      "p_category u = map_option trim (up_category updates)"
      "p_hasVariants u = orElse (up_hasVariants updates) (p_hasVariants p)"
      "p_variants u = orElse (up_variants updates) (p_variants p)"
      "p_price u = orElse (up_price updates) (p_price p)"
      "p_totalQuantity u =
             calculateTotalQuantity (p_hasVariants u) (p_variants u)
               (orElse (up_standaloneQuantity updates) (p_totalQuantity p))"
    using j p idp by (simp add: updateProduct_def Let_def)
  have same: "find (\<lambda>p. p_id p = productId) ((products w)[j := u]) = Some u"
    using j idu by (intro find_update_same) auto
  have other: "find (\<lambda>p. p_id p = other) ((products w)[j := u]) =
                 find (\<lambda>p. p_id p = other) (products w)" if "other \<noteq> productId" for other
    using jl p idp idu that by (intro find_update_other) auto
  show ?thesis
    using r fields same other by (simp add: w' getProductById_def saveProducts_def)
qed

lemma updateVariantQuantity_step:
  assumes "getProductById productId w = Some p"
    and "find (\<lambda>v. v_id v = variantId) (p_variants p) = Some v"
  shows "\<exists>u w' j. updateVariantQuantity timestamp productId variantId newQuantity w = (Inr u, w') \<and>
           getProductById productId w' = Some u \<and>
           (\<forall>other. other \<noteq> productId \<longrightarrow> getProductById other w' = getProductById other w) \<and>
           transactions w' = transactions w \<and>
           findIndex (\<lambda>v. v_id v = variantId) (p_variants p) = Some j \<and>
           p_variants u = (p_variants p)[j := v\<lparr>v_quantity := max 0 newQuantity\<rparr>] \<and>
           variantStock u variantId = Some (max 0 newQuantity) \<and>
           p_totalQuantity u = sum_list (map v_quantity (p_variants u)) \<and>
           p_hasVariants u = p_hasVariants p \<and> p_price u = p_price p"
proof -
  from assms(1) obtain i where i: "findIndex (\<lambda>p. p_id p = productId) (products w) = Some i"
    and p: "products w ! i = p"
    unfolding getProductById_def by (blast dest: find_findIndex)
  from findIndex_Some[OF i] p have il: "i < length (products w)" and idp: "p_id p = productId"
    by simp_all
  from assms(2) obtain j where j: "findIndex (\<lambda>v. v_id v = variantId) (p_variants p) = Some j"
    and v: "p_variants p ! j = v"
    by (blast dest: find_findIndex)
  from findIndex_Some[OF j] v have idv: "v_id v = variantId" by simp
  define vs where "vs = (p_variants p)[j := v\<lparr>v_quantity := max 0 newQuantity\<rparr>]"
  define u where "u = p\<lparr>p_variants := vs,
                       p_totalQuantity := foldl (\<lambda>sum v. sum + v_quantity v) 0 vs,
                       p_updatedAt := timestamp\<rparr>"
  define w' where "w' = saveProducts ((products w)[i := u]) w"
  have r: "updateVariantQuantity timestamp productId variantId newQuantity w = (Inr u, w')"
    using i p j v by (simp add: updateVariantQuantity_def Let_def u_def vs_def w'_def)
  have idu: "p_id u = productId" using idp by (simp add: u_def)
  have same: "find (\<lambda>p. p_id p = productId) ((products w)[i := u]) = Some u"
    using i idu by (intro find_update_same) auto
  have other: "find (\<lambda>p. p_id p = other) ((products w)[i := u]) =
                 find (\<lambda>p. p_id p = other) (products w)" if "other \<noteq> productId" for other
    using il p idp idu that by (intro find_update_other) auto
  have "find (\<lambda>v. v_id v = variantId) vs = Some (v\<lparr>v_quantity := max 0 newQuantity\<rparr>)"
    unfolding vs_def using j idv by (intro find_update_same) auto
  then have stock: "variantStock u variantId = Some (max 0 newQuantity)"
    by (simp add: variantStock_def u_def)
  have total: "p_totalQuantity u = sum_list (map v_quantity (p_variants u))"
    by (simp add: u_def foldl_quantity)
  show ?thesis
    using r same other j stock total
    by (simp add: w'_def getProductById_def saveProducts_def) (simp add: u_def vs_def)
qed

lemma updateBill_found:
  assumes "find (\<lambda>b. b_id b = billId) (bills w) = Some bill"
  shows "\<exists>u. fst (updateBill billId updates w) = Inr u \<and>
             find (\<lambda>b. b_id b = billId) (bills (snd (updateBill billId updates w))) = Some u \<and>
             b_category u = trimOrUndefined (ub_category updates) \<and>
             b_notes u = trimOrUndefined (ub_notes updates)"
proof -
  from assms obtain j where j: "findIndex (\<lambda>b. b_id b = billId) (bills w) = Some j"
    and b: "bills w ! j = bill"
    by (blast dest: find_findIndex)
  from findIndex_Some[OF j] b have idb: "b_id bill = billId" by simp
  have "find (\<lambda>b. b_id b = billId) ((bills w)[j := u]) = Some u" if "b_id u = billId" for u
    using j that by (intro find_update_same) auto
  then show ?thesis
    using j b idb by (simp add: updateBill_def Let_def saveBills_def)
qed



text \<open>The loop of the sale, one entry at a time.\<close>

lemma calculateTotal_sum:
  assumes "\<forall>(productId, line) \<in> set pq.
             find (\<lambda>p. p_id p = productId) snapshot = getProductById productId w"
  shows "foldl (\<lambda>sum (productId, data).
              case find (\<lambda>p. p_id p = productId) snapshot of
                None \<Rightarrow> sum
              | Some product \<Rightarrow> sum + p_price product * real_of_int (l_quantity data))
           a pq = a + sum_list (map (lineValue w) pq)"
  using assms
proof (induction pq arbitrary: a)
  case Nil
  then show ?case by simp
next
  case (Cons e rest)
  obtain productId line where e: "e = (productId, line)" by (cases e)
  from Cons.prems e
  have here: "find (\<lambda>p. p_id p = productId) snapshot = getProductById productId w"
    and there: "\<forall>(productId, line) \<in> set rest.
             find (\<lambda>p. p_id p = productId) snapshot = getProductById productId w"
    by auto
  show ?case
    using here by (simp add: e Cons.IH[OF there] lineValue_def split: option.splits)
qed

lemma updateInventory_Cons:
  assumes "find (\<lambda>p. p_id p = productId) snapshot = Some product"
    and "getProductById productId w = Some product"
    and "lineInStock product line"
  shows "\<exists>w1 after.
           updateInventory stamp snapshot k ((productId, line) # rest) w =
             updateInventory stamp snapshot (Suc k) rest w1 \<and>
           getProductById productId w1 = Some after \<and>
           lineSold line product after \<and>
           (\<forall>other. other \<noteq> productId \<longrightarrow> getProductById other w1 = getProductById other w) \<and>
           transactions w1 = transactions w"
proof (cases "truthy (l_selectedVariantId line)")
  case None
  with assms(3) have standalone: "\<not> (p_hasVariants product \<and> p_variants product \<noteq> [])"
    by (simp add: lineInStock_def)
  from updateProduct_step[OF assms(2), of "stamp k"
      "standaloneUpdate (p_totalQuantity product - l_quantity line)"]
  obtain u w1 where r: "updateProduct (stamp k) productId
        (standaloneUpdate (p_totalQuantity product - l_quantity line)) w = (Inr u, w1)"
    and s: "getProductById productId w1 = Some u"
    and o: "\<forall>other. other \<noteq> productId \<longrightarrow> getProductById other w1 = getProductById other w"
    and t: "transactions w1 = transactions w"
    and q: "p_totalQuantity u = p_totalQuantity product - l_quantity line"
    using standalone
    by (auto simp: standaloneUpdate_def orElse_def calculateTotalQuantity_eq)
  have "lineSold line product u" using None q by (simp add: lineSold_def)
  then show ?thesis
    using assms(1) None r s o t by auto
next
  case (Some vid)
  with assms(3) have q: "0 < l_quantity line"
    and m: "l_quantity line \<le>
              (case find (\<lambda>v. v_id v = vid) (p_variants product) of
                 None \<Rightarrow> 0 | Some variant \<Rightarrow> v_quantity variant)"
    by (simp_all add: lineInStock_def getMaxStock_def)
  then obtain variant where v: "find (\<lambda>v. v_id v = vid) (p_variants product) = Some variant"
    and le: "l_quantity line \<le> v_quantity variant"
    by (cases "find (\<lambda>v. v_id v = vid) (p_variants product)") auto
  from updateVariantQuantity_step[OF assms(2) v, of "stamp k"
      "v_quantity variant - l_quantity line"]
  obtain u w1 where r: "updateVariantQuantity (stamp k) productId vid
        (v_quantity variant - l_quantity line) w = (Inr u, w1)"
    and s: "getProductById productId w1 = Some u"
    and o: "\<forall>other. other \<noteq> productId \<longrightarrow> getProductById other w1 = getProductById other w"
    and t: "transactions w1 = transactions w"
    and st: "variantStock u vid = Some (max 0 (v_quantity variant - l_quantity line))"
    by blast
  have "variantStock product vid = Some (v_quantity variant)"
    using v by (simp add: variantStock_def)
  then have "lineSold line product u"
    using Some st le by (simp add: lineSold_def max_def)
  then show ?thesis
    using assms(1) Some v r s o t by auto
qed

lemma updateInventory_sells:
  assumes "distinct (map fst pq)"
    and "\<forall>(productId, line) \<in> set pq.
           \<exists>product. find (\<lambda>p. p_id p = productId) snapshot = Some product \<and>
                     getProductById productId w = Some product \<and> lineInStock product line"
  shows "\<exists>w'. updateInventory stamp snapshot k pq w = (Inr (), w') \<and>
           transactions w' = transactions w \<and>
           (\<forall>productId. productId \<notin> fst ` set pq \<longrightarrow>
              getProductById productId w' = getProductById productId w) \<and>
           (\<forall>(productId, line) \<in> set pq.
              \<exists>before after. getProductById productId w = Some before \<and>
                             getProductById productId w' = Some after \<and>
                             lineSold line before after)"
  using assms
proof (induction pq arbitrary: w k)
  case Nil
  then show ?case by simp
next
  case (Cons e rest)
  obtain productId line where e: "e = (productId, line)" by (cases e)
  from Cons.prems(1) e have fresh: "productId \<notin> fst ` set rest" and d: "distinct (map fst rest)"
    by auto
  from Cons.prems(2) e obtain product
    where p: "find (\<lambda>p. p_id p = productId) snapshot = Some product"
      "getProductById productId w = Some product" "lineInStock product line"
    by auto
  from updateInventory_Cons[OF p, of stamp k rest] obtain w1 after
    where step: "updateInventory stamp snapshot k ((productId, line) # rest) w =
             updateInventory stamp snapshot (Suc k) rest w1"
      and a: "getProductById productId w1 = Some after" "lineSold line product after"
      and o: "\<And>other. other \<noteq> productId \<Longrightarrow> getProductById other w1 = getProductById other w"
      and t: "transactions w1 = transactions w"
    by blast
  have same: "getProductById other w1 = getProductById other w" if "other \<in> fst ` set rest" for other
    using that fresh by (intro o) auto
  have rest_ok: "\<forall>(productId, line) \<in> set rest.
           \<exists>product. find (\<lambda>p. p_id p = productId) snapshot = Some product \<and>
                     getProductById productId w1 = Some product \<and> lineInStock product line"
  proof (clarify)
    fix pid' line' assume m: "(pid', line') \<in> set rest"
    then have "pid' \<in> fst ` set rest" by force
    then have "getProductById pid' w1 = getProductById pid' w" by (rule same)
    moreover from Cons.prems(2) m
    have "\<exists>product. find (\<lambda>p. p_id p = pid') snapshot = Some product \<and>
                     getProductById pid' w = Some product \<and> lineInStock product line'"
      by auto
    ultimately show "\<exists>product. find (\<lambda>p. p_id p = pid') snapshot = Some product \<and>
                     getProductById pid' w1 = Some product \<and> lineInStock product line'"
      by simp
  qed
  from Cons.IH[OF d rest_ok, of "Suc k"] obtain w'
    where r: "updateInventory stamp snapshot (Suc k) rest w1 = (Inr (), w')"
      and t': "transactions w' = transactions w1"
      and o': "\<And>productId. productId \<notin> fst ` set rest \<Longrightarrow>
                 getProductById productId w' = getProductById productId w1"
      and s': "\<forall>(productId, line) \<in> set rest.
              \<exists>before after. getProductById productId w1 = Some before \<and>
                             getProductById productId w' = Some after \<and>
                             lineSold line before after"
    by blast
  have 1: "updateInventory stamp snapshot k (e # rest) w = (Inr (), w')"
    using step r e by simp
  have 2: "transactions w' = transactions w" using t t' by simp
  have 3: "getProductById other w' = getProductById other w"
    if "other \<notin> fst ` set (e # rest)" for other
  proof -
    from that e have "other \<noteq> productId" "other \<notin> fst ` set rest" by auto
    then show ?thesis using o o' by simp
  qed
  have 4: "\<exists>before after. getProductById pid' w = Some before \<and>
                          getProductById pid' w' = Some after \<and> lineSold line' before after"
    if m: "(pid', line') \<in> set (e # rest)" for pid' line'
  proof (cases "(pid', line') = e")
    case True
    with e have "pid' = productId" "line' = line" by simp_all
    moreover from o'[OF fresh] a(1) have "getProductById productId w' = Some after" by simp
    ultimately show ?thesis using p(2) a(2) by blast
  next
    case False
    with m have m': "(pid', line') \<in> set rest" by simp
    then have "pid' \<in> fst ` set rest" by force
    then have eq: "getProductById pid' w1 = getProductById pid' w" by (rule same)
    from s' m' have "\<exists>before after. getProductById pid' w1 = Some before \<and>
                             getProductById pid' w' = Some after \<and>
                             lineSold line' before after"
      by auto
    then show ?thesis by (simp add: eq)
  qed
  show ?case using 1 2 3 4 by blast
qed


lemma recordSale_appends:
  "transactions (recordSale txId txTime request w) =
     transactions w @
       [\<lparr>t_id = txId, t_type = r_type request, t_description = r_description request,
         t_amount = r_amount request, t_timestamp = txTime, t_category = None,
         t_paymentMethod = r_paymentMethod request, t_items = Some (r_items request)\<rparr>] \<and>
   products (recordSale txId txTime request w) = products w"
  by (simp add: recordSale_def addTransaction_def saveTransactions_def Let_def)


lemma created_quantities:
  "map (v_quantity \<circ>
        (\<lambda>(k, v). \<lparr>v_id = g k, v_name = nv_name v, v_quantity = nv_quantity v,
                     v_sku = nv_sku v\<rparr>)) (enumerate n vs) = map nv_quantity vs"
  by (induction vs arbitrary: n) auto

lemma enumerate_empty: "enumerate n xs = [] \<longleftrightarrow> xs = []"
  by (cases xs) auto

section \<open>The debt manager\<close>

text \<open>
  C1. For a debt of the collection whose status is pending or overdue, \<^verbatim>\<open>markAsPaid\<close>
  succeeds and appends exactly one transaction to the ledger: an inflow for a receivable,
  an outflow for a payable, of the amount of the debt, described
  \<^verbatim>\<open>Cobro: <counterparty> - <description>\<close> or \<^verbatim>\<open>Pago: <counterparty> - <description>\<close>. The
  debt is then stored with status paid, \<^verbatim>\<open>paidAt\<close> set and \<^verbatim>\<open>linkedTransactionId\<close> equal to
  the id of that transaction. The ledger is written first and the debts second, as the
  order of the two storage events shows.
\<close>
theorem markAsPaid_settles:
  assumes "getDebtById debtId w = Some debt"
    and "d_status debt = Pending \<or> d_status debt = Overdue"
  shows "let t = \<lparr>t_id = txId,
                  t_type = (if d_type debt = Receivable then Inflow else Outflow),
                  t_description =
                    (if d_type debt = Receivable then ''Cobro: '' else ''Pago: '') @
                    d_counterparty debt @ '' - '' @ d_description debt,
                  t_amount = d_amount debt, t_timestamp = txTime,
                  t_category = d_category debt, t_paymentMethod = None, t_items = None\<rparr>;
             paid = debt\<lparr>d_status := Paid, d_paidAt := Some paidTime,
                         d_linkedTransactionId := Some txId\<rparr>
         in \<exists>i. findIndex (\<lambda>d. d_id d = debtId) (debts w) = Some i \<and>
                markAsPaid txId txTime paidTime debtId w =
                  (Inr (paid, t),
                   w\<lparr>transactions := transactions w @ [t],
                     debts := (debts w)[i := paid],
                     events := events w @ [''cashier_transactions'', ''debts'']\<rparr>) \<and>
                getDebtById debtId
                  (snd (markAsPaid txId txTime paidTime debtId w)) = Some paid"
proof -
  from assms(1) obtain i where i: "findIndex (\<lambda>d. d_id d = debtId) (debts w) = Some i"
    and d: "debts w ! i = debt"
    unfolding getDebtById_def by (blast dest: find_findIndex)
  from assms(2) have np: "d_status debt \<noteq> Paid" by auto
  from findIndex_Some[OF i] d have idd: "d_id debt = debtId" by simp
  show ?thesis
    using i d np idd
    by (auto simp add: markAsPaid_def addTransaction_def saveTransactions_def saveDebts_def
        getDebtById_def Let_def find_update_same)
qed

text \<open>The pending payable of the sample storage is settled by an outflow of 100.\<close>
theorem markAsPaid_settles_witness:
  "getDebtById ''d1'' sampleStore = Some debtAcme \<and> d_status debtAcme = Pending \<and>
   fst (markAsPaid ''t2'' ''2025-06-15T12:00:00.000Z'' ''2025-06-15T12:00:00.001Z'' ''d1''
          sampleStore) =
     Inr (debtAcme\<lparr>d_status := Paid, d_paidAt := Some ''2025-06-15T12:00:00.001Z'',
                   d_linkedTransactionId := Some ''t2''\<rparr>,
          \<lparr>t_id = ''t2'', t_type = Outflow, t_description = ''Pago: Acme - Fabric'',
           t_amount = 100, t_timestamp = ''2025-06-15T12:00:00.000Z'',
           t_category = Some ''Insumos'', t_paymentMethod = None, t_items = None\<rparr>)"
proof -
  have h1: "getDebtById ''d1'' sampleStore = Some debtAcme"
    by (simp add: getDebtById_def sampleStore_def debtAcme_def)
  have h2: "d_status debtAcme = Pending \<or> d_status debtAcme = Overdue"
    by (simp add: debtAcme_def)
  show ?thesis
    using h1 markAsPaid_settles[OF h1 h2, of "''t2''" "''2025-06-15T12:00:00.000Z''"
        "''2025-06-15T12:00:00.001Z''"]
    by (auto simp add: Let_def debtAcme_def)
qed

text \<open>
  C4. On a debt whose stored status is paid, \<^verbatim>\<open>markAsPaid\<close> fails with the AlreadyPaid
  error and leaves the storage as it was: no transaction is created and the debt collection
  is unchanged. On an id that no debt of the collection carries, whatever the collection
  holds, it fails with NotFound and leaves the storage as it was.
\<close>

theorem markAsPaid_rejects:
  "(getDebtById debtId w = Some debt \<and> d_status debt = Paid \<longrightarrow>
      markAsPaid txId txTime paidTime debtId w = (Inl DebtAlreadyPaid, w)) \<and>
   ((\<forall>d \<in> set (debts w). d_id d \<noteq> absentId) \<longrightarrow>
      markAsPaid txId txTime paidTime absentId w = (Inl DebtNotFound, w))"
proof (intro conjI impI)
  assume a: "getDebtById debtId w = Some debt \<and> d_status debt = Paid"
  then obtain i where "findIndex (\<lambda>d. d_id d = debtId) (debts w) = Some i"
    and "debts w ! i = debt"
    unfolding getDebtById_def by (blast dest: find_findIndex)
  with a show "markAsPaid txId txTime paidTime debtId w = (Inl DebtAlreadyPaid, w)"
    by (simp add: markAsPaid_def)
next
  assume "\<forall>d \<in> set (debts w). d_id d \<noteq> absentId"
  then have "findIndex (\<lambda>d. d_id d = absentId) (debts w) = None"
    by (simp add: findIndex_None)
  then show "markAsPaid txId txTime paidTime absentId w = (Inl DebtNotFound, w)"
    by (simp add: markAsPaid_def)
qed

text \<open>
  The paid receivable of the sample storage, an id that no debt carries, and a storage
  without debts.
\<close>

theorem markAsPaid_rejects_witness:
  "getDebtById ''d2'' sampleStore = Some debtLopez \<and> d_status debtLopez = Paid \<and>
   markAsPaid ''t2'' ''2025-06-15T12:00:00.000Z'' ''2025-06-15T12:00:00.001Z'' ''d2''
     sampleStore = (Inl DebtAlreadyPaid, sampleStore) \<and>
   markAsPaid ''t2'' ''2025-06-15T12:00:00.000Z'' ''2025-06-15T12:00:00.001Z'' ''d9''
     sampleStore = (Inl DebtNotFound, sampleStore) \<and>
   debts (sampleStore\<lparr>debts := []\<rparr>) = [] \<and>
   markAsPaid ''t2'' ''2025-06-15T12:00:00.000Z'' ''2025-06-15T12:00:00.001Z'' ''d2''
     (sampleStore\<lparr>debts := []\<rparr>) = (Inl DebtNotFound, sampleStore\<lparr>debts := []\<rparr>)"
proof -
  have h1: "getDebtById ''d2'' sampleStore = Some debtLopez \<and> d_status debtLopez = Paid"
    by (simp add: getDebtById_def sampleStore_def debtAcme_def debtLopez_def)
  have h2: "\<forall>d \<in> set (debts sampleStore). d_id d \<noteq> ''d9''"
    by (simp add: sampleStore_def debtAcme_def debtLopez_def debtRuiz_def)
  have h3: "\<forall>d \<in> set (debts (sampleStore\<lparr>debts := []\<rparr>)). d_id d \<noteq> ''d2''"
    by simp
  from markAsPaid_rejects[of "''d2''" sampleStore debtLopez "''t2''"
      "''2025-06-15T12:00:00.000Z''" "''2025-06-15T12:00:00.001Z''" "''d9''"]
    markAsPaid_rejects[of "''d2''" "sampleStore\<lparr>debts := []\<rparr>" debtLopez "''t2''"
      "''2025-06-15T12:00:00.000Z''" "''2025-06-15T12:00:00.001Z''" "''d2''"]
  show ?thesis using h1 h2 h3 by simp
qed

text \<open>
  C5, as stated, fails: the payload of \<^verbatim>\<open>updateDebt\<close> may carry \<^verbatim>\<open>status\<close>, and the spread
  writes it over the stored status. The paid receivable of the sample storage is pending
  again after \<^verbatim>\<open>updateDebt('d2', {status: 'pending'})\<close>.
\<close>
theorem updateDebt_reopens_paid:
  "getDebtById ''d2'' sampleStore = Some debtLopez \<and> d_status debtLopez = Paid \<and>
   getDebtById ''d2''
     (snd (updateDebt sampleDateOf sampleNow ''d2'' (noDebtUpdates\<lparr>ud_status := Some Pending\<rparr>)
             sampleStore)) =
     Some (debtLopez\<lparr>d_status := Pending\<rparr>)"
  by (simp add: getDebtById_def updateDebt_def sampleStore_def debtAcme_def debtLopez_def
      noDebtUpdates_def orElse_def trimOr_def trimOrUndefined_def saveDebts_def Let_def)

text \<open>
  C5, amended. A paid debt stays paid under every operation of the debt manager except
  \<^verbatim>\<open>updateDebt\<close> on that debt with a payload that carries \<^verbatim>\<open>status\<close>: \<^verbatim>\<open>markAsPaid\<close> (on
  any id), \<^verbatim>\<open>updateDebt\<close> on another id or with a payload without \<^verbatim>\<open>status\<close>,
  \<^verbatim>\<open>createDebt\<close> and \<^verbatim>\<open>getAllDebts\<close> leave it stored as paid, and \<^verbatim>\<open>deleteDebt\<close> either
  leaves it or removes it.
\<close>
theorem paid_is_kept:
  assumes "getDebtById debtId w = Some debt" and "d_status debt = Paid"
  shows "getDebtById debtId (snd (markAsPaid txId txTime paidTime anyId w)) = Some debt \<and>
         (anyId \<noteq> debtId \<or> ud_status updates = None \<longrightarrow>
            (\<exists>d'. getDebtById debtId (snd (updateDebt dateOf now anyId updates w)) = Some d' \<and>
                  d_status d' = Paid)) \<and>
         getDebtById debtId
           (snd (createDebt dateOf now newId timestamp type counterparty amount description
                   dueDate category notes w)) = Some debt \<and>
         getDebtById debtId (deleteDebt anyId w) = (if anyId = debtId then None else Some debt) \<and>
         snd (getAllDebts dateOf now filters w) = w \<and>
         debt \<in> set (fst (getAllDebts dateOf now None w))"
proof (intro conjI impI)
  show "getDebtById debtId (snd (markAsPaid txId txTime paidTime anyId w)) = Some debt"
  proof (cases "anyId = debtId")
    case True
    from assms(1) obtain i where "findIndex (\<lambda>d. d_id d = debtId) (debts w) = Some i"
      and "debts w ! i = debt"
      unfolding getDebtById_def by (blast dest: find_findIndex)
    then show ?thesis using True assms by (simp add: markAsPaid_def)
  next
    case False
    then show ?thesis by (rule markAsPaid_other[OF assms(1)])
  qed
next
  assume c: "anyId \<noteq> debtId \<or> ud_status updates = None"
  show "\<exists>d'. getDebtById debtId (snd (updateDebt dateOf now anyId updates w)) = Some d' \<and>
             d_status d' = Paid"
  proof (cases "anyId = debtId")
    case True
    with c have "ud_status updates = None" by simp
    with updateDebt_same[OF assms(1), of dateOf now updates] assms(2) True
    show ?thesis by (auto simp: orElse_def Let_def split: option.splits)
  next
    case False
    from updateDebt_other[OF assms(1) False] assms(2) show ?thesis by blast
  qed
next
  show "getDebtById debtId
          (snd (createDebt dateOf now newId timestamp type counterparty amount description
                  dueDate category notes w)) = Some debt"
    using assms(1)
    by (simp add: createDebt_def saveDebts_def getDebtById_def find_append_Some Let_def)
next
  have "find (\<lambda>d. d_id d = debtId) (filter (\<lambda>d. d_id d \<noteq> anyId) (debts w)) =
          find (\<lambda>d. d_id d = debtId) (debts w)" if "anyId \<noteq> debtId"
    using that by (intro find_filter_keep) auto
  moreover have "find (\<lambda>d. d_id d = debtId) (filter (\<lambda>d. d_id d \<noteq> debtId) (debts w)) = None"
    by (intro find_filter_drop) auto
  ultimately show "getDebtById debtId (deleteDebt anyId w) =
      (if anyId = debtId then None else Some debt)"
    using assms(1) by (simp add: deleteDebt_def saveDebts_def getDebtById_def)
next
  show "snd (getAllDebts dateOf now filters w) = w" by (rule getAllDebts_reads)
next
  from assms(1) have "debt \<in> set (debts w)"
    unfolding getDebtById_def by (blast dest: find_Some_set)
  moreover have "deriveOverdue dateOf now debt = debt"
    using assms(2) by (simp add: deriveOverdue_def)
  ultimately have "debt \<in> deriveOverdue dateOf now ` set (debts w)" by force
  then show "debt \<in> set (fst (getAllDebts dateOf now None w))"
    by (simp add: getAllDebts_None set_sortBy)
qed

text \<open>The paid receivable keeps its status when its due date is moved.\<close>
theorem paid_is_kept_witness:
  "getDebtById ''d2'' sampleStore = Some debtLopez \<and> d_status debtLopez = Paid \<and>
   ud_status (noDebtUpdates\<lparr>ud_dueDate := Some ''2030-01-01''\<rparr>) = None \<and>
   (\<exists>d'. getDebtById ''d2''
            (snd (updateDebt sampleDateOf sampleNow ''d2''
                    (noDebtUpdates\<lparr>ud_dueDate := Some ''2030-01-01''\<rparr>) sampleStore)) = Some d' \<and>
         d_status d' = Paid) \<and>
   getDebtById ''d2'' (deleteDebt ''d1'' sampleStore) = Some debtLopez"
proof -
  have h1: "getDebtById ''d2'' sampleStore = Some debtLopez"
    by (simp add: getDebtById_def sampleStore_def debtAcme_def debtLopez_def)
  have h2: "d_status debtLopez = Paid"
    by (simp add: debtLopez_def)
  have h3: "ud_status (noDebtUpdates\<lparr>ud_dueDate := Some ''2030-01-01''\<rparr>) = None"
    by (simp add: noDebtUpdates_def)
  from paid_is_kept[OF h1 h2, of _ _ _ "''d2''" "noDebtUpdates\<lparr>ud_dueDate := Some ''2030-01-01''\<rparr>"
      sampleDateOf sampleNow] h3
  have "\<exists>d'. getDebtById ''d2''
            (snd (updateDebt sampleDateOf sampleNow ''d2''
                    (noDebtUpdates\<lparr>ud_dueDate := Some ''2030-01-01''\<rparr>) sampleStore)) = Some d' \<and>
         d_status d' = Paid"
    by blast
  moreover from paid_is_kept[OF h1 h2, of _ _ _ "''d1''"]
  have "getDebtById ''d2'' (deleteDebt ''d1'' sampleStore) = Some debtLopez"
    by simp
  ultimately show ?thesis using h1 h2 h3 by blast
qed

text \<open>
  C6. A stored debt whose status is pending and whose due date lies before the time of
  the call is reported by \<^verbatim>\<open>getAllDebts()\<close> with status overdue, with no update before.
  The call does not write the storage, a second call at the same time gives the same
  result, every reported entry is a fixed point of the derivation, and the debt is still
  reported overdue at any later time.
\<close>
theorem getAllDebts_derives_overdue:
  assumes "debt \<in> set (debts w)" and "d_status debt = Pending"
    and "isBefore dateOf (d_dueDate debt) now"
  shows "debt\<lparr>d_status := Overdue\<rparr> \<in> set (fst (getAllDebts dateOf now None w)) \<and>
         snd (getAllDebts dateOf now None w) = w \<and>
         getAllDebts dateOf now None (snd (getAllDebts dateOf now None w)) =
           getAllDebts dateOf now None w \<and>
         (\<forall>d \<in> set (fst (getAllDebts dateOf now None w)). deriveOverdue dateOf now d = d) \<and>
         (\<forall>later \<ge> now. debt\<lparr>d_status := Overdue\<rparr> \<in> set (fst (getAllDebts dateOf later None w)))"
proof (intro conjI ballI allI impI)
  have at: "debt\<lparr>d_status := Overdue\<rparr> \<in> set (fst (getAllDebts dateOf t None w))"
    if "now \<le> t" for t
  proof -
    from assms(3) that have "isBefore dateOf (d_dueDate debt) t" by (rule isBefore_mono)
    with assms(2) have "deriveOverdue dateOf t debt = debt\<lparr>d_status := Overdue\<rparr>"
      by (simp add: deriveOverdue_def)
    with assms(1) have "debt\<lparr>d_status := Overdue\<rparr> \<in> deriveOverdue dateOf t ` set (debts w)"
      by force
    then show ?thesis by (simp add: getAllDebts_None set_sortBy)
  qed
  show "debt\<lparr>d_status := Overdue\<rparr> \<in> set (fst (getAllDebts dateOf now None w))"
    by (rule at) simp
  show "debt\<lparr>d_status := Overdue\<rparr> \<in> set (fst (getAllDebts dateOf later None w))"
    if "now \<le> later" for later
    using that by (rule at)
  show "snd (getAllDebts dateOf now None w) = w" by (rule getAllDebts_reads)
  show "getAllDebts dateOf now None (snd (getAllDebts dateOf now None w)) =
          getAllDebts dateOf now None w"
    by (simp add: getAllDebts_reads)
  show "deriveOverdue dateOf now d = d"
    if "d \<in> set (fst (getAllDebts dateOf now None w))" for d
    using that by (auto simp: getAllDebts_None set_sortBy deriveOverdue_def)
qed

text \<open>The pending payable of the sample storage was due in 2024.\<close>
theorem getAllDebts_derives_overdue_witness:
  "debtAcme \<in> set (debts sampleStore) \<and> d_status debtAcme = Pending \<and>
   isBefore sampleDateOf (d_dueDate debtAcme) sampleNow \<and>
   debtAcme\<lparr>d_status := Overdue\<rparr> \<in> set (fst (getAllDebts sampleDateOf sampleNow None sampleStore)) \<and>
   snd (getAllDebts sampleDateOf sampleNow None sampleStore) = sampleStore"
proof -
  have h1: "debtAcme \<in> set (debts sampleStore)" by (simp add: sampleStore_def)
  have h2: "d_status debtAcme = Pending" by (simp add: debtAcme_def)
  have h3: "isBefore sampleDateOf (d_dueDate debtAcme) sampleNow"
    by (simp add: isBefore_def sampleDateOf_def sampleNow_def debtAcme_def)
  show ?thesis
    using h1 h2 h3 getAllDebts_derives_overdue[OF h1 h2 h3] by simp
qed

text \<open>
  C8, as stated, fails: \<^verbatim>\<open>updateDebt\<close> tests the status after the payload was merged, and
  the payload may carry \<^verbatim>\<open>status\<close>. The overdue receivable of the sample storage is pending
  after \<^verbatim>\<open>updateDebt('d3', {dueDate: '2030-01-01', status: 'pending'})\<close>.
\<close>
theorem updateDebt_overdue_to_pending:
  "getDebtById ''d3'' sampleStore = Some debtRuiz \<and> d_status debtRuiz = Overdue \<and>
   getDebtById ''d3''
     (snd (updateDebt sampleDateOf sampleNow ''d3''
             (noDebtUpdates\<lparr>ud_dueDate := Some ''2030-01-01'', ud_status := Some Pending\<rparr>)
             sampleStore)) =
     Some (debtRuiz\<lparr>d_dueDate := ''2030-01-01'', d_status := Pending\<rparr>)"
  by (simp add: getDebtById_def updateDebt_def sampleStore_def debtAcme_def debtLopez_def
      debtRuiz_def noDebtUpdates_def orElse_def trimOr_def trimOrUndefined_def saveDebts_def
      Let_def isBefore_def sampleDateOf_def sampleNow_def)

text \<open>
  C8, amended. For every existing debt and every payload, \<^verbatim>\<open>updateDebt\<close> stores the due
  date of the payload, or the stored one when the payload has none, and the status obtained
  by merging the payload (the status of the payload when it has one, the stored status
  otherwise), except that the status is derived from the new due date (overdue if it lies
  before now, pending otherwise) when the payload carries a due date that is not the empty
  string and the merged status is pending. Hence, for a payload without \<^verbatim>\<open>status\<close>: a
  pending debt that gets a new, non-empty due date is derived again at once, and an
  overdue debt stays overdue, with or without a new due date and also when the new due date
  lies in the future.
\<close>

theorem updateDebt_rederives:
  assumes "getDebtById debtId w = Some debt"
  shows "\<exists>d'. fst (updateDebt dateOf now debtId updates w) = Inr d' \<and>
              getDebtById debtId (snd (updateDebt dateOf now debtId updates w)) = Some d' \<and>
              d_dueDate d' =
                (case ud_dueDate updates of None \<Rightarrow> d_dueDate debt | Some dueDate \<Rightarrow> dueDate) \<and>
              d_status d' =
                (let merged = (case ud_status updates of None \<Rightarrow> d_status debt | Some s \<Rightarrow> s)
                 in case ud_dueDate updates of
                      None \<Rightarrow> merged
                    | Some dueDate \<Rightarrow>
                        if merged = Pending \<and> dueDate \<noteq> []
                        then (case dateOf dueDate of
                                None \<Rightarrow> Pending
                              | Some t \<Rightarrow> if t < now then Overdue else Pending)
                        else merged) \<and>
              (\<forall>dueDate. ud_status updates = None \<and> d_status debt = Pending \<and>
                         ud_dueDate updates = Some dueDate \<and> dueDate \<noteq> [] \<longrightarrow>
                 d_status d' =
                   (case dateOf dueDate of
                      None \<Rightarrow> Pending
                    | Some t \<Rightarrow> if t < now then Overdue else Pending)) \<and>
              (ud_status updates = None \<and> d_status debt = Overdue \<longrightarrow> d_status d' = Overdue) \<and>
              (ud_status updates = None \<and> d_status debt = Paid \<longrightarrow> d_status d' = Paid)"
  using updateDebt_same[OF assms, of dateOf now updates]
  by (auto simp: orElse_def Let_def isBefore_def split: option.splits)

text \<open>
  The pending payable becomes overdue with a due date in January 2025 and stays pending
  with one in 2030; the overdue receivable stays overdue with a due date in 2030 and under
  an update of its amount.
\<close>

theorem updateDebt_rederives_witness:
  "getDebtById ''d1'' sampleStore = Some debtAcme \<and> d_status debtAcme = Pending \<and>
   getDebtById ''d3'' sampleStore = Some debtRuiz \<and> d_status debtRuiz = Overdue \<and>
   (\<exists>d'. fst (updateDebt sampleDateOf sampleNow ''d1''
                 (noDebtUpdates\<lparr>ud_dueDate := Some ''2025-01-01''\<rparr>) sampleStore) = Inr d' \<and>
         d_dueDate d' = ''2025-01-01'' \<and> d_status d' = Overdue) \<and>
   (\<exists>d'. fst (updateDebt sampleDateOf sampleNow ''d1''
                 (noDebtUpdates\<lparr>ud_dueDate := Some ''2030-01-01''\<rparr>) sampleStore) = Inr d' \<and>
         d_dueDate d' = ''2030-01-01'' \<and> d_status d' = Pending) \<and>
   (\<exists>d'. fst (updateDebt sampleDateOf sampleNow ''d3''
                 (noDebtUpdates\<lparr>ud_dueDate := Some ''2030-01-01''\<rparr>) sampleStore) = Inr d' \<and>
         d_dueDate d' = ''2030-01-01'' \<and> d_status d' = Overdue) \<and>
   (\<exists>d'. fst (updateDebt sampleDateOf sampleNow ''d3''
                 (noDebtUpdates\<lparr>ud_amount := Some 20\<rparr>) sampleStore) = Inr d' \<and>
         d_dueDate d' = ''2024-01-01'' \<and> d_status d' = Overdue)"
proof -
  have h1: "getDebtById ''d1'' sampleStore = Some debtAcme"
    by (simp add: getDebtById_def sampleStore_def debtAcme_def)
  have h3: "getDebtById ''d3'' sampleStore = Some debtRuiz"
    by (simp add: getDebtById_def sampleStore_def debtAcme_def debtLopez_def debtRuiz_def)
  have s: "d_status debtAcme = Pending" "d_status debtRuiz = Overdue"
    "d_dueDate debtRuiz = ''2024-01-01''"
    by (simp_all add: debtAcme_def debtRuiz_def)
  have d: "sampleDateOf ''2025-01-01'' = Some 1735689600000"
    "sampleDateOf ''2030-01-01'' = Some 1893456000000"
    by (simp_all add: sampleDateOf_def)
  have u: "ud_status noDebtUpdates = None" "ud_dueDate noDebtUpdates = None"
    by (simp_all add: noDebtUpdates_def)
  from updateDebt_rederives[OF h1, of sampleDateOf sampleNow
      "noDebtUpdates\<lparr>ud_dueDate := Some ''2025-01-01''\<rparr>"]
  have a: "\<exists>d'. fst (updateDebt sampleDateOf sampleNow ''d1''
                 (noDebtUpdates\<lparr>ud_dueDate := Some ''2025-01-01''\<rparr>) sampleStore) = Inr d' \<and>
         d_dueDate d' = ''2025-01-01'' \<and> d_status d' = Overdue"
    using s d u by (auto simp: sampleNow_def)
  from updateDebt_rederives[OF h1, of sampleDateOf sampleNow
      "noDebtUpdates\<lparr>ud_dueDate := Some ''2030-01-01''\<rparr>"]
  have b: "\<exists>d'. fst (updateDebt sampleDateOf sampleNow ''d1''
                 (noDebtUpdates\<lparr>ud_dueDate := Some ''2030-01-01''\<rparr>) sampleStore) = Inr d' \<and>
         d_dueDate d' = ''2030-01-01'' \<and> d_status d' = Pending"
    using s d u by (auto simp: sampleNow_def)
  from updateDebt_rederives[OF h3, of sampleDateOf sampleNow
      "noDebtUpdates\<lparr>ud_dueDate := Some ''2030-01-01''\<rparr>"]
  have c: "\<exists>d'. fst (updateDebt sampleDateOf sampleNow ''d3''
                 (noDebtUpdates\<lparr>ud_dueDate := Some ''2030-01-01''\<rparr>) sampleStore) = Inr d' \<and>
         d_dueDate d' = ''2030-01-01'' \<and> d_status d' = Overdue"
    using s d u by (auto simp: sampleNow_def)
  from updateDebt_rederives[OF h3, of sampleDateOf sampleNow
      "noDebtUpdates\<lparr>ud_amount := Some 20\<rparr>"]
  have e: "\<exists>d'. fst (updateDebt sampleDateOf sampleNow ''d3''
                 (noDebtUpdates\<lparr>ud_amount := Some 20\<rparr>) sampleStore) = Inr d' \<and>
         d_dueDate d' = ''2024-01-01'' \<and> d_status d' = Overdue"
    using s d u by (auto simp: sampleNow_def)
  from h1 h3 s a b c e show ?thesis by blast
qed

section \<open>The bill manager\<close>

text \<open>
  C7. For an existing bill, \<^verbatim>\<open>toggleBillPaid\<close> flips \<^verbatim>\<open>isPaid\<close> and saves the bills. When
  the new state is true and the create-transaction flag is not false (it is true, or
  omitted and so true by default), it then appends exactly one outflow transaction
  described \<^verbatim>\<open>Pago: <name>\<close>, of the amount of the bill, with the category of the bill, or
  \<^verbatim>\<open>Gastos Fijos\<close> when the bill has none; the storage events show the bills written before
  the ledger. When the flag is false, or when the bill was paid and is toggled back, the
  ledger is not written.
\<close>

theorem toggleBillPaid_flips:
  assumes "find (\<lambda>b. b_id b = billId) (bills w) = Some bill"
  shows "let toggled = bill\<lparr>b_isPaid := \<not> b_isPaid bill\<rparr>;
             t = \<lparr>t_id = txId, t_type = Outflow, t_description = ''Pago: '' @ b_name bill,
                  t_amount = b_amount bill, t_timestamp = txTime,
                  t_category =
                    Some (case b_category bill of
                            None \<Rightarrow> ''Gastos Fijos''
                          | Some c \<Rightarrow> if c = [] then ''Gastos Fijos'' else c),
                  t_paymentMethod = None, t_items = None\<rparr>
         in \<exists>i. findIndex (\<lambda>b. b_id b = billId) (bills w) = Some i \<and>
                toggleBillPaid txId txTime billId createTransaction w =
                  (Inr toggled,
                   if \<not> b_isPaid bill \<and> createTransaction \<noteq> Some False
                   then w\<lparr>bills := (bills w)[i := toggled],
                          transactions := transactions w @ [t],
                          events := events w @ [''app_bills'', ''cashier_transactions'']\<rparr>
                   else w\<lparr>bills := (bills w)[i := toggled],
                          events := events w @ [''app_bills'']\<rparr>) \<and>
                find (\<lambda>b. b_id b = billId)
                  (bills (snd (toggleBillPaid txId txTime billId createTransaction w))) =
                  Some toggled \<and>
                (createTransaction = Some False \<or> b_isPaid bill \<longrightarrow>
                   transactions (snd (toggleBillPaid txId txTime billId createTransaction w)) =
                     transactions w)"
proof -
  from assms obtain i where i: "findIndex (\<lambda>b. b_id b = billId) (bills w) = Some i"
    and b: "bills w ! i = bill"
    by (blast dest: find_findIndex)
  from findIndex_Some[OF i] b have idb: "b_id bill = billId" by simp
  have "find (\<lambda>b. b_id b = billId) ((bills w)[i := u]) = Some u" if "b_id u = billId" for u
    using i that by (intro find_update_same) auto
  then show ?thesis
    using i b idb
    by (cases createTransaction)
      (auto simp add: toggleBillPaid_def Let_def saveBills_def addTransaction_def
        saveTransactions_def categoryOrDefault_def orElse_def)
qed

text \<open>
  Paying the rent, whose category is absent, with the flag omitted; paying the
  electricity, which has a category, with the flag true; paying the rent with the flag
  false; and toggling the paid insurance back.
\<close>

theorem toggleBillPaid_flips_witness:
  "find (\<lambda>b. b_id b = ''b1'') (bills billStore) = Some rent \<and>
   find (\<lambda>b. b_id b = ''b2'') (bills billStore) = Some insurance \<and>
   find (\<lambda>b. b_id b = ''b3'') (bills billStore) = Some electricity \<and>
   toggleBillPaid ''t2'' ''2025-06-15T12:00:00.000Z'' ''b1'' None billStore =
     (Inr (rent\<lparr>b_isPaid := True\<rparr>),
      billStore\<lparr>bills := [rent\<lparr>b_isPaid := True\<rparr>, insurance, electricity],
        transactions := transactions billStore @
          [\<lparr>t_id = ''t2'', t_type = Outflow, t_description = ''Pago: Rent'', t_amount = 300,
            t_timestamp = ''2025-06-15T12:00:00.000Z'', t_category = Some ''Gastos Fijos'',
            t_paymentMethod = None, t_items = None\<rparr>],
        events := [''app_bills'', ''cashier_transactions'']\<rparr>) \<and>
   toggleBillPaid ''t2'' ''2025-06-15T12:00:00.000Z'' ''b3'' (Some True) billStore =
     (Inr (electricity\<lparr>b_isPaid := True\<rparr>),
      billStore\<lparr>bills := [rent, insurance, electricity\<lparr>b_isPaid := True\<rparr>],
        transactions := transactions billStore @
          [\<lparr>t_id = ''t2'', t_type = Outflow, t_description = ''Pago: Power'', t_amount = 55,
            t_timestamp = ''2025-06-15T12:00:00.000Z'', t_category = Some ''Servicios'',
            t_paymentMethod = None, t_items = None\<rparr>],
        events := [''app_bills'', ''cashier_transactions'']\<rparr>) \<and>
   toggleBillPaid ''t2'' ''2025-06-15T12:00:00.000Z'' ''b1'' (Some False) billStore =
     (Inr (rent\<lparr>b_isPaid := True\<rparr>),
      billStore\<lparr>bills := [rent\<lparr>b_isPaid := True\<rparr>, insurance, electricity],
        events := [''app_bills'']\<rparr>) \<and>
   toggleBillPaid ''t2'' ''2025-06-15T12:00:00.000Z'' ''b2'' (Some True) billStore =
     (Inr (insurance\<lparr>b_isPaid := False\<rparr>),
      billStore\<lparr>bills := [rent, insurance\<lparr>b_isPaid := False\<rparr>, electricity],
        events := [''app_bills'']\<rparr>)"
proof -
  have h: "find (\<lambda>b. b_id b = ''b1'') (bills billStore) = Some rent"
    "find (\<lambda>b. b_id b = ''b2'') (bills billStore) = Some insurance"
    "find (\<lambda>b. b_id b = ''b3'') (bills billStore) = Some electricity"
    by (simp_all add: billStore_def rent_def insurance_def electricity_def)
  have i: "findIndex (\<lambda>b. b_id b = ''b1'') (bills billStore) = Some 0"
    "findIndex (\<lambda>b. b_id b = ''b2'') (bills billStore) = Some 1"
    "findIndex (\<lambda>b. b_id b = ''b3'') (bills billStore) = Some 2"
    by (simp_all add: billStore_def rent_def insurance_def electricity_def)
  have c: "b_category rent = None" "b_name rent = ''Rent''" "b_amount rent = 300"
    "\<not> b_isPaid rent" "b_category electricity = Some ''Servicios''" "b_name electricity = ''Power''"
    "b_amount electricity = 55" "\<not> b_isPaid electricity" "b_isPaid insurance"
    by (simp_all add: rent_def insurance_def electricity_def)
  have l: "bills billStore = [rent, insurance, electricity]" "events billStore = []"
    by (simp_all add: billStore_def sampleStore_def)
  from toggleBillPaid_flips[OF h(1), of "''t2''" "''2025-06-15T12:00:00.000Z''" None]
  have a1: "toggleBillPaid ''t2'' ''2025-06-15T12:00:00.000Z'' ''b1'' None billStore =
     (Inr (rent\<lparr>b_isPaid := True\<rparr>),
      billStore\<lparr>bills := [rent\<lparr>b_isPaid := True\<rparr>, insurance, electricity],
        transactions := transactions billStore @
          [\<lparr>t_id = ''t2'', t_type = Outflow, t_description = ''Pago: Rent'', t_amount = 300,
            t_timestamp = ''2025-06-15T12:00:00.000Z'', t_category = Some ''Gastos Fijos'',
            t_paymentMethod = None, t_items = None\<rparr>],
        events := [''app_bills'', ''cashier_transactions'']\<rparr>)"
    using i c l by (simp add: Let_def)
  from toggleBillPaid_flips[OF h(3), of "''t2''" "''2025-06-15T12:00:00.000Z''" "Some True"]
  have a2: "toggleBillPaid ''t2'' ''2025-06-15T12:00:00.000Z'' ''b3'' (Some True) billStore =
     (Inr (electricity\<lparr>b_isPaid := True\<rparr>),
      billStore\<lparr>bills := [rent, insurance, electricity\<lparr>b_isPaid := True\<rparr>],
        transactions := transactions billStore @
          [\<lparr>t_id = ''t2'', t_type = Outflow, t_description = ''Pago: Power'', t_amount = 55,
            t_timestamp = ''2025-06-15T12:00:00.000Z'', t_category = Some ''Servicios'',
            t_paymentMethod = None, t_items = None\<rparr>],
        events := [''app_bills'', ''cashier_transactions'']\<rparr>)"
    using i c l by (simp add: Let_def)
  from toggleBillPaid_flips[OF h(1), of "''t2''" "''2025-06-15T12:00:00.000Z''" "Some False"]
  have a3: "toggleBillPaid ''t2'' ''2025-06-15T12:00:00.000Z'' ''b1'' (Some False) billStore =
     (Inr (rent\<lparr>b_isPaid := True\<rparr>),
      billStore\<lparr>bills := [rent\<lparr>b_isPaid := True\<rparr>, insurance, electricity],
        events := [''app_bills'']\<rparr>)"
    using i c l by (simp add: Let_def)
  from toggleBillPaid_flips[OF h(2), of "''t2''" "''2025-06-15T12:00:00.000Z''" "Some True"]
  have a4: "toggleBillPaid ''t2'' ''2025-06-15T12:00:00.000Z'' ''b2'' (Some True) billStore =
     (Inr (insurance\<lparr>b_isPaid := False\<rparr>),
      billStore\<lparr>bills := [rent, insurance\<lparr>b_isPaid := False\<rparr>, electricity],
        events := [''app_bills'']\<rparr>)"
    using i c l by (simp add: Let_def)
  from h a1 a2 a3 a4 show ?thesis by simp
qed

section \<open>The product catalog\<close>

text \<open>
  C9. For every product, variant of it and input quantity, negative ones included,
  \<^verbatim>\<open>updateVariantQuantity\<close> stores \<open>max 0 newQuantity\<close> as the quantity of the variant, so the
  stored quantity is never negative.
\<close>
theorem updateVariantQuantity_clamps:
  assumes "getProductById productId w = Some p"
    and "find (\<lambda>v. v_id v = variantId) (p_variants p) = Some v"
  shows "\<exists>p' j. fst (updateVariantQuantity timestamp productId variantId newQuantity w) = Inr p' \<and>
           getProductById productId
             (snd (updateVariantQuantity timestamp productId variantId newQuantity w)) = Some p' \<and>
           findIndex (\<lambda>v. v_id v = variantId) (p_variants p) = Some j \<and>
           p_variants p' = (p_variants p)[j := v\<lparr>v_quantity := max 0 newQuantity\<rparr>] \<and>
           variantStock p' variantId = Some (max 0 newQuantity) \<and>
           0 \<le> v_quantity (p_variants p' ! j)"
proof -
  from updateVariantQuantity_step[OF assms, of timestamp newQuantity] obtain u w' j
    where r: "updateVariantQuantity timestamp productId variantId newQuantity w = (Inr u, w')"
      "getProductById productId w' = Some u"
      "findIndex (\<lambda>v. v_id v = variantId) (p_variants p) = Some j"
      "p_variants u = (p_variants p)[j := v\<lparr>v_quantity := max 0 newQuantity\<rparr>]"
      "variantStock u variantId = Some (max 0 newQuantity)"
    by blast
  from findIndex_Some[OF r(3)] have "j < length (p_variants p)" by simp
  then have "0 \<le> v_quantity (p_variants u ! j)" by (simp add: r(4))
  then show ?thesis using r by auto
qed

text \<open>Setting the variant M of the shirt to \<open>-4\<close> stores \<open>0\<close>.\<close>
theorem updateVariantQuantity_clamps_witness:
  "getProductById ''p1'' sampleStore = Some shirt \<and>
   find (\<lambda>v. v_id v = ''v2'') (p_variants shirt) =
     Some \<lparr>v_id = ''v2'', v_name = ''M'', v_quantity = 3, v_sku = None\<rparr> \<and>
   (\<exists>p'. fst (updateVariantQuantity ''2025-06-15T12:00:00.000Z'' ''p1'' ''v2'' (- 4) sampleStore) =
            Inr p' \<and>
         variantStock p' ''v2'' = Some 0)"
proof -
  have h1: "getProductById ''p1'' sampleStore = Some shirt"
    by (simp add: getProductById_def sampleStore_def shirt_def)
  have h2: "find (\<lambda>v. v_id v = ''v2'') (p_variants shirt) =
              Some \<lparr>v_id = ''v2'', v_name = ''M'', v_quantity = 3, v_sku = None\<rparr>"
    by (simp add: shirt_def)
  from updateVariantQuantity_clamps[OF h1 h2, of "''2025-06-15T12:00:00.000Z''" "- 4"]
  show ?thesis using h1 h2 by auto
qed


text \<open>
  C3, as stated, fails after \<^verbatim>\<open>updateVariantQuantity\<close>, which sums the variants without
  looking at \<^verbatim>\<open>hasVariants\<close>. The cap is what \<^verbatim>\<open>createProduct\<close> builds from
  \<^verbatim>\<open>hasVariants = false\<close>, one variant of quantity 3 and the standalone quantity 5: its
  total is 5. After \<^verbatim>\<open>updateVariantQuantity\<close> on its variant, \<^verbatim>\<open>hasVariants\<close> is still false
  and the total is 3, the sum of the variants, not the standalone quantity set last.
  Likewise the scarf, created in variant mode with the standalone quantity 1 and a total
  of 4, keeps the total 4 when \<^verbatim>\<open>updateProduct\<close> switches \<^verbatim>\<open>hasVariants\<close> off without a
  \<^verbatim>\<open>standaloneQuantity\<close>: the fallback is the total it had, not the standalone quantity 1.
\<close>
theorem updateVariantQuantity_overrides_standalone:
  "fst (createProduct sampleVariantId ''p3'' ''2025-01-03T00:00:00.000Z''
          ''2025-01-03T00:00:00.000Z'' ''Cap'' 9 None None None (Some False)
          (Some [\<lparr>nv_name = ''U'', nv_quantity = 3, nv_sku = None\<rparr>]) (Some 5) sampleStore) = cap \<and>
   getProductById ''p3'' sampleStore = Some cap \<and>
   p_hasVariants cap = False \<and> p_totalQuantity cap = 5 \<and>
   map_option p_hasVariants
     (getProductById ''p3''
        (snd (updateVariantQuantity ''2025-06-15T12:00:00.000Z'' ''p3'' ''v0'' 3 sampleStore))) =
     Some False \<and>
   map_option p_totalQuantity
     (getProductById ''p3''
        (snd (updateVariantQuantity ''2025-06-15T12:00:00.000Z'' ''p3'' ''v0'' 3 sampleStore))) =
     Some 3 \<and>
   map_option p_totalQuantity (getProductById ''p4'' scarfStore) = Some 4 \<and>
   map_option p_hasVariants
     (getProductById ''p4''
        (snd (updateProduct ''2025-06-15T12:00:00.000Z'' ''p4''
                (noProductUpdates\<lparr>up_hasVariants := Some False\<rparr>) scarfStore))) = Some False \<and>
   map_option p_totalQuantity
     (getProductById ''p4''
        (snd (updateProduct ''2025-06-15T12:00:00.000Z'' ''p4''
                (noProductUpdates\<lparr>up_hasVariants := Some False\<rparr>) scarfStore))) = Some 4"
  by (simp add: createProduct_def updateVariantQuantity_def updateProduct_def getProductById_def
      sampleStore_def scarfStore_def noProductUpdates_def cap_def shirt_def mug_def
      sampleVariantId_def showNat.simps[of 0] orElse_def trimOr_def trimOrUndefined_def trim_def
      isWhiteSpace_def calculateTotalQuantity_def saveProducts_def Let_def)

text \<open>
  C3, amended. The product that \<^verbatim>\<open>createProduct\<close> stores, in any catalog, and the product
  that \<^verbatim>\<open>updateProduct\<close> stores for any existing product, with or without variants, has
  \<^verbatim>\<open>totalQuantity\<close> equal to the sum of its variant quantities when \<^verbatim>\<open>hasVariants\<close> is true
  and the variants are not empty, and otherwise equal to the standalone quantity of the
  call: the argument of \<^verbatim>\<open>createProduct\<close> (default 0), the \<^verbatim>\<open>standaloneQuantity\<close> of the
  payload of \<^verbatim>\<open>updateProduct\<close> or, when the payload has none, the \<^verbatim>\<open>totalQuantity\<close> the
  product had. The product that \<^verbatim>\<open>updateVariantQuantity\<close> stores has \<^verbatim>\<open>totalQuantity\<close> equal
  to the sum of its variant quantities, whatever \<^verbatim>\<open>hasVariants\<close> is.
\<close>

theorem totalQuantity_computed:
  "(let created = fst (createProduct genId newId createdTime updatedTime name price
                         description imageArg category hasVariantsArg variantsArg
                         standaloneQuantityArg w)
    in p_hasVariants created = (case hasVariantsArg of None \<Rightarrow> False | Some h \<Rightarrow> h) \<and>
       map v_quantity (p_variants created) =
         map nv_quantity (case variantsArg of None \<Rightarrow> [] | Some vs \<Rightarrow> vs) \<and>
       p_totalQuantity created =
         (if p_hasVariants created \<and> p_variants created \<noteq> []
          then sum_list (map v_quantity (p_variants created))
          else (case standaloneQuantityArg of None \<Rightarrow> 0 | Some q \<Rightarrow> q)) \<and>
       products (snd (createProduct genId newId createdTime updatedTime name price
                        description imageArg category hasVariantsArg variantsArg
                        standaloneQuantityArg w)) = products w @ [created]) \<and>
   (getProductById productId w = Some p \<longrightarrow>
      (\<exists>p'. fst (updateProduct timestamp productId updates w) = Inr p' \<and>
            getProductById productId (snd (updateProduct timestamp productId updates w)) =
              Some p' \<and>
            p_hasVariants p' =
              (case up_hasVariants updates of None \<Rightarrow> p_hasVariants p | Some h \<Rightarrow> h) \<and>
            p_variants p' =
              (case up_variants updates of None \<Rightarrow> p_variants p | Some vs \<Rightarrow> vs) \<and>
            p_totalQuantity p' =
              (if p_hasVariants p' \<and> p_variants p' \<noteq> []
               then sum_list (map v_quantity (p_variants p'))
               else (case up_standaloneQuantity updates of
                       None \<Rightarrow> p_totalQuantity p | Some q \<Rightarrow> q)))) \<and>
   (getProductById variantProductId w = Some vp \<and>
    find (\<lambda>v. v_id v = variantId) (p_variants vp) = Some v \<longrightarrow>
      (\<exists>p'. fst (updateVariantQuantity timestamp variantProductId variantId newQuantity w) =
              Inr p' \<and>
            getProductById variantProductId
              (snd (updateVariantQuantity timestamp variantProductId variantId newQuantity w)) =
              Some p' \<and>
            p_hasVariants p' = p_hasVariants vp \<and>
            p_totalQuantity p' = sum_list (map v_quantity (p_variants p'))))"
proof (intro conjI impI)
  show "let created = fst (createProduct genId newId createdTime updatedTime name price
                         description imageArg category hasVariantsArg variantsArg
                         standaloneQuantityArg w)
    in p_hasVariants created = (case hasVariantsArg of None \<Rightarrow> False | Some h \<Rightarrow> h) \<and>
       map v_quantity (p_variants created) =
         map nv_quantity (case variantsArg of None \<Rightarrow> [] | Some vs \<Rightarrow> vs) \<and>
       p_totalQuantity created =
         (if p_hasVariants created \<and> p_variants created \<noteq> []
          then sum_list (map v_quantity (p_variants created))
          else (case standaloneQuantityArg of None \<Rightarrow> 0 | Some q \<Rightarrow> q)) \<and>
       products (snd (createProduct genId newId createdTime updatedTime name price
                        description imageArg category hasVariantsArg variantsArg
                        standaloneQuantityArg w)) = products w @ [created]"
    by (simp add: createProduct_def Let_def calculateTotalQuantity_eq saveProducts_def
        created_quantities enumerate_empty orElse_def)
next
  assume a: "getProductById productId w = Some p"
  from updateProduct_step[OF a, of timestamp updates]
  show "\<exists>p'. fst (updateProduct timestamp productId updates w) = Inr p' \<and>
            getProductById productId (snd (updateProduct timestamp productId updates w)) =
              Some p' \<and>
            p_hasVariants p' =
              (case up_hasVariants updates of None \<Rightarrow> p_hasVariants p | Some h \<Rightarrow> h) \<and>
            p_variants p' =
              (case up_variants updates of None \<Rightarrow> p_variants p | Some vs \<Rightarrow> vs) \<and>
            p_totalQuantity p' =
              (if p_hasVariants p' \<and> p_variants p' \<noteq> []
               then sum_list (map v_quantity (p_variants p'))
               else (case up_standaloneQuantity updates of
                       None \<Rightarrow> p_totalQuantity p | Some q \<Rightarrow> q))"
    by (auto simp: calculateTotalQuantity_eq orElse_def)
next
  assume a: "getProductById variantProductId w = Some vp \<and>
    find (\<lambda>v. v_id v = variantId) (p_variants vp) = Some v"
  then have a1: "getProductById variantProductId w = Some vp"
    and a2: "find (\<lambda>v. v_id v = variantId) (p_variants vp) = Some v"
    by simp_all
  from updateVariantQuantity_step[OF a1 a2, of timestamp newQuantity]
  show "\<exists>p'. fst (updateVariantQuantity timestamp variantProductId variantId newQuantity w) =
              Inr p' \<and>
            getProductById variantProductId
              (snd (updateVariantQuantity timestamp variantProductId variantId newQuantity w)) =
              Some p' \<and>
            p_hasVariants p' = p_hasVariants vp \<and>
            p_totalQuantity p' = sum_list (map v_quantity (p_variants p'))"
    by auto
qed

text \<open>
  Products created in an empty catalog with variants, with a standalone quantity and with
  neither; the mug, which has no variants, updated with and without a standalone quantity;
  the shirt updated with a standalone quantity, which its variants override, and after its
  variant S is set to 3.
\<close>

theorem totalQuantity_computed_witness:
  "p_totalQuantity
     (fst (createProduct sampleVariantId ''p5'' ''2025-01-05T00:00:00.000Z''
             ''2025-01-05T00:00:00.000Z'' ''Socks'' 4 None None None (Some True)
             (Some [\<lparr>nv_name = ''S'', nv_quantity = 5, nv_sku = None\<rparr>,
                    \<lparr>nv_name = ''M'', nv_quantity = 3, nv_sku = None\<rparr>]) (Some 2)
             (sampleStore\<lparr>products := []\<rparr>))) = 8 \<and>
   p_totalQuantity
     (fst (createProduct sampleVariantId ''p6'' ''2025-01-05T00:00:00.000Z''
             ''2025-01-05T00:00:00.000Z'' ''Belt'' 4 None None None None None (Some 6)
             (sampleStore\<lparr>products := []\<rparr>))) = 6 \<and>
   p_totalQuantity
     (fst (createProduct sampleVariantId ''p7'' ''2025-01-05T00:00:00.000Z''
             ''2025-01-05T00:00:00.000Z'' ''Hat'' 4 None None None None None None
             (sampleStore\<lparr>products := []\<rparr>))) = 0 \<and>
   getProductById ''p2'' sampleStore = Some mug \<and> p_variants mug = [] \<and>
   (\<exists>p'. fst (updateProduct ''2025-06-15T12:00:00.000Z'' ''p2''
                 (noProductUpdates\<lparr>up_standaloneQuantity := Some 9\<rparr>) sampleStore) = Inr p' \<and>
         p_totalQuantity p' = 9) \<and>
   (\<exists>p'. fst (updateProduct ''2025-06-15T12:00:00.000Z'' ''p2''
                 (noProductUpdates\<lparr>up_price := Some 8\<rparr>) sampleStore) = Inr p' \<and>
         p_totalQuantity p' = 10) \<and>
   getProductById ''p1'' sampleStore = Some shirt \<and>
   find (\<lambda>v. v_id v = ''v1'') (p_variants shirt) =
     Some \<lparr>v_id = ''v1'', v_name = ''S'', v_quantity = 5, v_sku = None\<rparr> \<and>
   (\<exists>p'. fst (updateProduct ''2025-06-15T12:00:00.000Z'' ''p1''
                 (noProductUpdates\<lparr>up_standaloneQuantity := Some 1\<rparr>) sampleStore) = Inr p' \<and>
         p_totalQuantity p' = 8) \<and>
   (\<exists>p'. fst (updateVariantQuantity ''2025-06-15T12:00:00.000Z'' ''p1'' ''v1'' 3 sampleStore) =
            Inr p' \<and>
         p_hasVariants p' = True \<and>
         p_totalQuantity p' = sum_list (map v_quantity (p_variants p')))"
proof -
  have g: "getProductById ''p2'' sampleStore = Some mug"
    "getProductById ''p1'' sampleStore = Some shirt"
    by (simp_all add: getProductById_def sampleStore_def shirt_def mug_def)
  have v: "find (\<lambda>v. v_id v = ''v1'') (p_variants shirt) =
              Some \<lparr>v_id = ''v1'', v_name = ''S'', v_quantity = 5, v_sku = None\<rparr>"
    by (simp add: shirt_def)
  have m: "p_variants mug = []" "p_totalQuantity mug = 10" "p_hasVariants shirt = True"
    "map v_quantity (p_variants shirt) = [5, 3]" "p_variants shirt \<noteq> []"
    by (simp_all add: mug_def shirt_def)
  have u: "up_hasVariants noProductUpdates = None" "up_variants noProductUpdates = None"
    "up_standaloneQuantity noProductUpdates = None"
    by (simp_all add: noProductUpdates_def)
  from totalQuantity_computed[of sampleVariantId "''p5''" "''2025-01-05T00:00:00.000Z''"
      "''2025-01-05T00:00:00.000Z''" "''Socks''" 4 None None None "Some True"
      "Some [\<lparr>nv_name = ''S'', nv_quantity = 5, nv_sku = None\<rparr>,
             \<lparr>nv_name = ''M'', nv_quantity = 3, nv_sku = None\<rparr>]" "Some 2"
      "sampleStore\<lparr>products := []\<rparr>"]
  have c1: "p_totalQuantity
     (fst (createProduct sampleVariantId ''p5'' ''2025-01-05T00:00:00.000Z''
             ''2025-01-05T00:00:00.000Z'' ''Socks'' 4 None None None (Some True)
             (Some [\<lparr>nv_name = ''S'', nv_quantity = 5, nv_sku = None\<rparr>,
                    \<lparr>nv_name = ''M'', nv_quantity = 3, nv_sku = None\<rparr>]) (Some 2)
             (sampleStore\<lparr>products := []\<rparr>))) = 8"
    by (auto simp: Let_def)
  from totalQuantity_computed[of sampleVariantId "''p6''" "''2025-01-05T00:00:00.000Z''"
      "''2025-01-05T00:00:00.000Z''" "''Belt''" 4 None None None None None "Some 6"
      "sampleStore\<lparr>products := []\<rparr>"]
  have c2: "p_totalQuantity
     (fst (createProduct sampleVariantId ''p6'' ''2025-01-05T00:00:00.000Z''
             ''2025-01-05T00:00:00.000Z'' ''Belt'' 4 None None None None None (Some 6)
             (sampleStore\<lparr>products := []\<rparr>))) = 6"
    by (simp add: Let_def)
  from totalQuantity_computed[of sampleVariantId "''p7''" "''2025-01-05T00:00:00.000Z''"
      "''2025-01-05T00:00:00.000Z''" "''Hat''" 4 None None None None None None
      "sampleStore\<lparr>products := []\<rparr>"]
  have c3: "p_totalQuantity
     (fst (createProduct sampleVariantId ''p7'' ''2025-01-05T00:00:00.000Z''
             ''2025-01-05T00:00:00.000Z'' ''Hat'' 4 None None None None None None
             (sampleStore\<lparr>products := []\<rparr>))) = 0"
    by (simp add: Let_def)
  from totalQuantity_computed[where productId = "''p2''" and w = sampleStore and p = mug
      and timestamp = "''2025-06-15T12:00:00.000Z''"
      and updates = "noProductUpdates\<lparr>up_standaloneQuantity := Some 9\<rparr>",
      THEN conjunct2, THEN conjunct1, THEN mp, OF g(1)]
  have u1: "\<exists>p'. fst (updateProduct ''2025-06-15T12:00:00.000Z'' ''p2''
                 (noProductUpdates\<lparr>up_standaloneQuantity := Some 9\<rparr>) sampleStore) = Inr p' \<and>
         p_totalQuantity p' = 9"
    using m u by auto
  from totalQuantity_computed[where productId = "''p2''" and w = sampleStore and p = mug
      and timestamp = "''2025-06-15T12:00:00.000Z''"
      and updates = "noProductUpdates\<lparr>up_price := Some 8\<rparr>",
      THEN conjunct2, THEN conjunct1, THEN mp, OF g(1)]
  have u2: "\<exists>p'. fst (updateProduct ''2025-06-15T12:00:00.000Z'' ''p2''
                 (noProductUpdates\<lparr>up_price := Some 8\<rparr>) sampleStore) = Inr p' \<and>
         p_totalQuantity p' = 10"
    using m u by auto
  from totalQuantity_computed[where productId = "''p1''" and w = sampleStore and p = shirt
      and timestamp = "''2025-06-15T12:00:00.000Z''"
      and updates = "noProductUpdates\<lparr>up_standaloneQuantity := Some 1\<rparr>",
      THEN conjunct2, THEN conjunct1, THEN mp, OF g(2)]
  have u3: "\<exists>p'. fst (updateProduct ''2025-06-15T12:00:00.000Z'' ''p1''
                 (noProductUpdates\<lparr>up_standaloneQuantity := Some 1\<rparr>) sampleStore) = Inr p' \<and>
         p_totalQuantity p' = 8"
    using m u by auto
  from totalQuantity_computed[where variantProductId = "''p1''" and w = sampleStore
      and vp = shirt and timestamp = "''2025-06-15T12:00:00.000Z''" and variantId = "''v1''"
      and newQuantity = 3, THEN conjunct2, THEN conjunct2, THEN mp, OF conjI, OF g(2) v]
  have q: "\<exists>p'. fst (updateVariantQuantity ''2025-06-15T12:00:00.000Z'' ''p1'' ''v1'' 3 sampleStore) =
            Inr p' \<and>
         p_hasVariants p' = True \<and>
         p_totalQuantity p' = sum_list (map v_quantity (p_variants p'))"
    using m by auto
  from c1 c2 c3 g m(1) v u1 u2 u3 q show ?thesis by blast
qed

section \<open>Optional text fields under an update\<close>

text \<open>
  C10. An update does not preserve the optional text fields. For every existing product,
  \<^verbatim>\<open>updateProduct\<close> stores as \<^verbatim>\<open>description\<close> and \<^verbatim>\<open>category\<close> the trimmed text of the
  payload, and nothing when the payload omits the field. For every existing debt and for
  every existing bill, \<^verbatim>\<open>updateDebt\<close> and \<^verbatim>\<open>updateBill\<close> store as \<^verbatim>\<open>category\<close> and
  \<^verbatim>\<open>notes\<close> the trimmed text of the payload when it is not empty, and nothing when the
  payload omits the field or the trimmed text is empty. What was stored before plays no
  part.
\<close>

theorem update_rewrites_optional_text:
  "(getProductById productId w = Some p \<longrightarrow>
      (\<exists>p'. fst (updateProduct timestamp productId pu w) = Inr p' \<and>
            getProductById productId (snd (updateProduct timestamp productId pu w)) = Some p' \<and>
            p_description p' =
              (case up_description pu of None \<Rightarrow> None | Some x \<Rightarrow> Some (trim x)) \<and>
            p_category p' =
              (case up_category pu of None \<Rightarrow> None | Some x \<Rightarrow> Some (trim x)))) \<and>
   (getDebtById debtId w = Some d \<longrightarrow>
      (\<exists>d'. fst (updateDebt dateOf now debtId du w) = Inr d' \<and>
            getDebtById debtId (snd (updateDebt dateOf now debtId du w)) = Some d' \<and>
            d_category d' =
              (case ud_category du of
                 None \<Rightarrow> None
               | Some x \<Rightarrow> if trim x = [] then None else Some (trim x)) \<and>
            d_notes d' =
              (case ud_notes du of
                 None \<Rightarrow> None
               | Some x \<Rightarrow> if trim x = [] then None else Some (trim x)))) \<and>
   (find (\<lambda>b. b_id b = billId) (bills w) = Some b \<longrightarrow>
      (\<exists>b'. fst (updateBill billId bu w) = Inr b' \<and>
            find (\<lambda>b. b_id b = billId) (bills (snd (updateBill billId bu w))) = Some b' \<and>
            b_category b' =
              (case ub_category bu of
                 None \<Rightarrow> None
               | Some x \<Rightarrow> if trim x = [] then None else Some (trim x)) \<and>
            b_notes b' =
              (case ub_notes bu of
                 None \<Rightarrow> None
               | Some x \<Rightarrow> if trim x = [] then None else Some (trim x))))"
proof (intro conjI impI)
  assume a: "getProductById productId w = Some p"
  from updateProduct_step[OF a, of timestamp pu]
  show "\<exists>p'. fst (updateProduct timestamp productId pu w) = Inr p' \<and>
            getProductById productId (snd (updateProduct timestamp productId pu w)) = Some p' \<and>
            p_description p' =
              (case up_description pu of None \<Rightarrow> None | Some x \<Rightarrow> Some (trim x)) \<and>
            p_category p' =
              (case up_category pu of None \<Rightarrow> None | Some x \<Rightarrow> Some (trim x))"
    by (auto split: option.splits)
next
  assume a: "getDebtById debtId w = Some d"
  from updateDebt_same[OF a, of dateOf now du]
  show "\<exists>d'. fst (updateDebt dateOf now debtId du w) = Inr d' \<and>
            getDebtById debtId (snd (updateDebt dateOf now debtId du w)) = Some d' \<and>
            d_category d' =
              (case ud_category du of
                 None \<Rightarrow> None
               | Some x \<Rightarrow> if trim x = [] then None else Some (trim x)) \<and>
            d_notes d' =
              (case ud_notes du of
                 None \<Rightarrow> None
               | Some x \<Rightarrow> if trim x = [] then None else Some (trim x))"
    by (auto simp: trimOrUndefined_def)
next
  assume a: "find (\<lambda>b. b_id b = billId) (bills w) = Some b"
  from updateBill_found[OF a, of bu]
  show "\<exists>b'. fst (updateBill billId bu w) = Inr b' \<and>
            find (\<lambda>b. b_id b = billId) (bills (snd (updateBill billId bu w))) = Some b' \<and>
            b_category b' =
              (case ub_category bu of
                 None \<Rightarrow> None
               | Some x \<Rightarrow> if trim x = [] then None else Some (trim x)) \<and>
            b_notes b' =
              (case ub_notes bu of
                 None \<Rightarrow> None
               | Some x \<Rightarrow> if trim x = [] then None else Some (trim x))"
    by (auto simp: trimOrUndefined_def)
qed

text \<open>
  Each update in a storage that holds only that kind of entity: the mug loses its
  category, the payable its notes and the rent its notes, and the texts of the payloads are
  stored trimmed.
\<close>

theorem update_rewrites_optional_text_witness:
  "getProductById ''p2'' (sampleStore\<lparr>debts := [], bills := []\<rparr>) = Some mug \<and>
   p_description mug = Some ''Blue'' \<and> p_category mug = Some ''Hogar'' \<and>
   (\<exists>p'. fst (updateProduct ''2025-06-15T12:00:00.000Z'' ''p2''
                 (noProductUpdates\<lparr>up_description := Some '' Big ''\<rparr>)
                 (sampleStore\<lparr>debts := [], bills := []\<rparr>)) = Inr p' \<and>
         p_description p' = Some ''Big'' \<and> p_category p' = None) \<and>
   getDebtById ''d1'' (sampleStore\<lparr>products := [], bills := []\<rparr>) = Some debtAcme \<and>
   d_category debtAcme = Some ''Insumos'' \<and> d_notes debtAcme = Some ''net 30'' \<and>
   (\<exists>d'. fst (updateDebt sampleDateOf sampleNow ''d1''
                 (noDebtUpdates\<lparr>ud_category := Some '' Telas ''\<rparr>)
                 (sampleStore\<lparr>products := [], bills := []\<rparr>)) = Inr d' \<and>
         d_category d' = Some ''Telas'' \<and> d_notes d' = None) \<and>
   find (\<lambda>b. b_id b = ''b1'') (bills (sampleStore\<lparr>products := [], debts := []\<rparr>)) = Some rent \<and>
   b_notes rent = Some ''shop'' \<and>
   (\<exists>b'. fst (updateBill ''b1'' (noBillUpdates\<lparr>ub_category := Some ''Local'', ub_notes := Some ''  ''\<rparr>)
                 (sampleStore\<lparr>products := [], debts := []\<rparr>)) = Inr b' \<and>
         b_category b' = Some ''Local'' \<and> b_notes b' = None)"
proof -
  have h1: "getProductById ''p2'' (sampleStore\<lparr>debts := [], bills := []\<rparr>) = Some mug"
    by (simp add: getProductById_def sampleStore_def shirt_def mug_def)
  have h2: "getDebtById ''d1'' (sampleStore\<lparr>products := [], bills := []\<rparr>) = Some debtAcme"
    by (simp add: getDebtById_def sampleStore_def debtAcme_def)
  have h3: "find (\<lambda>b. b_id b = ''b1'') (bills (sampleStore\<lparr>products := [], debts := []\<rparr>)) =
              Some rent"
    by (simp add: sampleStore_def rent_def)
  have v: "p_description mug = Some ''Blue''" "p_category mug = Some ''Hogar''"
    "d_category debtAcme = Some ''Insumos''" "d_notes debtAcme = Some ''net 30''"
    "b_notes rent = Some ''shop''"
    by (simp_all add: mug_def debtAcme_def rent_def)
  have t: "trim '' Big '' = ''Big''" "trim '' Telas '' = ''Telas''" "trim ''Local'' = ''Local''"
    "trim ''  '' = []"
    by (simp_all add: trim_def isWhiteSpace_def)
  have n: "up_category noProductUpdates = None" "ud_notes noDebtUpdates = None"
    by (simp_all add: noProductUpdates_def noDebtUpdates_def)
  from update_rewrites_optional_text[where productId = "''p2''" and p = mug
      and w = "sampleStore\<lparr>debts := [], bills := []\<rparr>"
      and timestamp = "''2025-06-15T12:00:00.000Z''"
      and pu = "noProductUpdates\<lparr>up_description := Some '' Big ''\<rparr>",
      THEN conjunct1, THEN mp, OF h1]
  have a: "\<exists>p'. fst (updateProduct ''2025-06-15T12:00:00.000Z'' ''p2''
                 (noProductUpdates\<lparr>up_description := Some '' Big ''\<rparr>)
                 (sampleStore\<lparr>debts := [], bills := []\<rparr>)) = Inr p' \<and>
         p_description p' = Some ''Big'' \<and> p_category p' = None"
    using t n by auto
  from update_rewrites_optional_text[where debtId = "''d1''" and d = debtAcme
      and w = "sampleStore\<lparr>products := [], bills := []\<rparr>"
      and dateOf = sampleDateOf and now = sampleNow
      and du = "noDebtUpdates\<lparr>ud_category := Some '' Telas ''\<rparr>",
      THEN conjunct2, THEN conjunct1, THEN mp, OF h2]
  have b: "\<exists>d'. fst (updateDebt sampleDateOf sampleNow ''d1''
                 (noDebtUpdates\<lparr>ud_category := Some '' Telas ''\<rparr>)
                 (sampleStore\<lparr>products := [], bills := []\<rparr>)) = Inr d' \<and>
         d_category d' = Some ''Telas'' \<and> d_notes d' = None"
    using t n by auto
  from update_rewrites_optional_text[where billId = "''b1''" and b = rent
      and w = "sampleStore\<lparr>products := [], debts := []\<rparr>"
      and bu = "noBillUpdates\<lparr>ub_category := Some ''Local'', ub_notes := Some ''  ''\<rparr>",
      THEN conjunct2, THEN conjunct2, THEN mp, OF h3]
  have c: "\<exists>b'. fst (updateBill ''b1''
                 (noBillUpdates\<lparr>ub_category := Some ''Local'', ub_notes := Some ''  ''\<rparr>)
                 (sampleStore\<lparr>products := [], debts := []\<rparr>)) = Inr b' \<and>
         b_category b' = Some ''Local'' \<and> b_notes b' = None"
    using t by auto
  from h1 h2 h3 v a b c show ?thesis by blast
qed

section \<open>The sale workflow\<close>

text \<open>
  C2, as stated, fails: the form loads the catalog once, subtracts the sold quantity from
  the stock it loaded and writes the difference. A second sale of the same lines through
  the same form, each line within the stock the form shows and within the stock that is
  stored, completes and adds a third transaction, but writes the same numbers again: the
  variant S stays at 3 and the mugs stay at 7.
\<close>

theorem second_sale_from_stale_form:
  "lineInStock shirt \<lparr>l_quantity = 2, l_selectedVariantId = Some ''v1''\<rparr> \<and>
   lineInStock mug \<lparr>l_quantity = 3, l_selectedVariantId = None\<rparr> \<and>
   map_option (map v_quantity \<circ> p_variants) (getProductById ''p1'' sampleStore) = Some [5, 3] \<and>
   map_option (map v_quantity \<circ> p_variants) (getProductById ''p1'' afterFirstSale) = Some [3, 3] \<and>
   map_option (map v_quantity \<circ> p_variants) (getProductById ''p1'' afterSecondSale) = Some [3, 3] \<and>
   map_option p_totalQuantity (getProductById ''p2'' sampleStore) = Some 10 \<and>
   map_option p_totalQuantity (getProductById ''p2'' afterFirstSale) = Some 7 \<and>
   map_option p_totalQuantity (getProductById ''p2'' afterSecondSale) = Some 7 \<and>
   map t_amount (transactions afterSecondSale) = [40, 61, 61]"
  by (simp add: lineInStock_def getMaxStock_def truthy_def afterSecondSale_def afterFirstSale_def
      handleSubmit_def sampleSale_def calculateTotal_def recordSale_def addTransaction_def
      saveTransactions_def updateVariantQuantity_def updateProduct_def standaloneUpdate_def
      getProductById_def sampleStore_def cap_def shirt_def mug_def orElse_def trimOr_def
      trimOrUndefined_def calculateTotalQuantity_def saveProducts_def Let_def)

text \<open>
  C2, amended. A sale of one or more lines through a form whose product list agrees with
  the stored catalog on the products sold, each line in stock, completes:
  \<^verbatim>\<open>handleSubmit\<close> writes no transaction itself and calls the handler once, with a request
  of type inflow whose amount is the sum of price times quantity over the lines, on the
  storage in which the stock is decremented. With the ledger as the handler, exactly one
  transaction is appended, an inflow of that amount, and for every line the stock of the
  selected variant, or the total of the product when no variant is selected, is lower by
  exactly the quantity sold. Products that are not in the sale are unchanged.
\<close>

theorem sale_completes:
  assumes "productQuantities \<noteq> []" and "distinct (map fst productQuantities)"
    and "\<forall>(productId, line) \<in> set productQuantities.
           \<exists>product. find (\<lambda>p. p_id p = productId) snapshot = Some product \<and>
                     getProductById productId w = Some product \<and> lineInStock product line"
  shows "\<exists>request w1 t.
           (\<forall>onAddTransaction.
              handleSubmit onAddTransaction stamp snapshot productQuantities paymentMethod w =
                (Inr (Some request), onAddTransaction request w1)) \<and>
           r_type request = Inflow \<and>
           r_amount request = sum_list (map (lineValue w) productQuantities) \<and>
           transactions w1 = transactions w \<and>
           transactions (recordSale txId txTime request w1) = transactions w @ [t] \<and>
           t_type t = Inflow \<and>
           t_amount t = sum_list (map (lineValue w) productQuantities) \<and>
           (\<forall>(productId, line) \<in> set productQuantities.
              \<exists>before after.
                getProductById productId w = Some before \<and>
                getProductById productId (recordSale txId txTime request w1) = Some after \<and>
                lineSold line before after) \<and>
           (\<forall>productId. productId \<notin> fst ` set productQuantities \<longrightarrow>
              getProductById productId (recordSale txId txTime request w1) =
                getProductById productId w)"
proof -
  from updateInventory_sells[OF assms(2,3), of stamp 0] obtain w1
    where r: "updateInventory stamp snapshot 0 productQuantities w = (Inr (), w1)"
      and t: "transactions w1 = transactions w"
      and o: "\<forall>productId. productId \<notin> fst ` set productQuantities \<longrightarrow>
              getProductById productId w1 = getProductById productId w"
      and s: "\<forall>(productId, line) \<in> set productQuantities.
              \<exists>before after. getProductById productId w = Some before \<and>
                             getProductById productId w1 = Some after \<and>
                             lineSold line before after"
    by blast
  from assms(3) have "\<forall>(productId, line) \<in> set productQuantities.
             find (\<lambda>p. p_id p = productId) snapshot = getProductById productId w"
    by fastforce
  then have total: "calculateTotal snapshot productQuantities =
                      sum_list (map (lineValue w) productQuantities)"
    unfolding calculateTotal_def by (simp add: calculateTotal_sum)
  define request where "request = \<lparr>r_description = saleDescription snapshot productQuantities,
                    r_amount = calculateTotal snapshot productQuantities, r_type = Inflow,
                    r_paymentMethod = truthy (Some paymentMethod),
                    r_items = saleItems snapshot productQuantities\<rparr>"
  define w' where "w' = recordSale txId txTime request w1"
  have run: "handleSubmit onAddTransaction stamp snapshot productQuantities paymentMethod w =
               (Inr (Some request), onAddTransaction request w1)" for onAddTransaction
    using assms(1) r by (simp add: handleSubmit_def Let_def request_def)
  have req: "r_type request = Inflow"
    "r_amount request = sum_list (map (lineValue w) productQuantities)"
    by (simp_all add: request_def total)
  have same: "getProductById productId w' = getProductById productId w1" for productId
    by (simp add: w'_def getProductById_def recordSale_appends)
  from recordSale_appends[of txId txTime request w1] obtain tx
    where tx: "transactions w' = transactions w @ [tx]" "t_type tx = Inflow"
      "t_amount tx = sum_list (map (lineValue w) productQuantities)"
    by (simp add: w'_def t req)
  from s have s': "\<forall>(productId, line) \<in> set productQuantities.
              \<exists>before after. getProductById productId w = Some before \<and>
                             getProductById productId w' = Some after \<and>
                             lineSold line before after"
    by (simp add: same)
  from o have o': "\<forall>productId. productId \<notin> fst ` set productQuantities \<longrightarrow>
              getProductById productId w' = getProductById productId w"
    by (simp add: same)
  from run req t tx s' o' show ?thesis unfolding w'_def by blast
qed

text \<open>
  Two shirts of size S and three mugs: one inflow of 61, the variant S goes from 5 to 3
  and the mugs from 10 to 7.
\<close>

theorem sale_completes_witness:
  "sampleSale \<noteq> [] \<and> distinct (map fst sampleSale) \<and>
   find (\<lambda>p. p_id p = ''p1'') [cap, mug, shirt] = Some shirt \<and>
   getProductById ''p1'' sampleStore = Some shirt \<and>
   lineInStock shirt \<lparr>l_quantity = 2, l_selectedVariantId = Some ''v1''\<rparr> \<and>
   find (\<lambda>p. p_id p = ''p2'') [cap, mug, shirt] = Some mug \<and>
   getProductById ''p2'' sampleStore = Some mug \<and>
   lineInStock mug \<lparr>l_quantity = 3, l_selectedVariantId = None\<rparr> \<and>
   (\<exists>request w' t.
      handleSubmit (recordSale ''t2'' ''2025-06-15T12:00:05.000Z'') sampleStamp [cap, mug, shirt]
        sampleSale ''Efectivo'' sampleStore = (Inr (Some request), w') \<and>
      transactions w' = transactions sampleStore @ [t] \<and> t_type t = Inflow \<and> t_amount t = 61 \<and>
      (\<exists>after. getProductById ''p1'' w' = Some after \<and> variantStock after ''v1'' = Some 3) \<and>
      (\<exists>after. getProductById ''p2'' w' = Some after \<and> p_totalQuantity after = 7))"
proof -
  have h1: "sampleSale \<noteq> []" and h2: "distinct (map fst sampleSale)"
    by (simp_all add: sampleSale_def)
  have g: "getProductById ''p1'' sampleStore = Some shirt"
    "getProductById ''p2'' sampleStore = Some mug"
    by (simp_all add: getProductById_def sampleStore_def shirt_def mug_def)
  have f: "find (\<lambda>p. p_id p = ''p1'') [cap, mug, shirt] = Some shirt"
    "find (\<lambda>p. p_id p = ''p2'') [cap, mug, shirt] = Some mug"
    by (simp_all add: cap_def shirt_def mug_def)
  have l: "lineInStock shirt \<lparr>l_quantity = 2, l_selectedVariantId = Some ''v1''\<rparr>"
    "lineInStock mug \<lparr>l_quantity = 3, l_selectedVariantId = None\<rparr>"
    by (simp_all add: lineInStock_def getMaxStock_def truthy_def shirt_def mug_def)
  have h3: "\<forall>(productId, line) \<in> set sampleSale.
      \<exists>product. find (\<lambda>p. p_id p = productId) [cap, mug, shirt] = Some product \<and>
                getProductById productId sampleStore = Some product \<and> lineInStock product line"
    using g f l by (simp add: sampleSale_def)
  have v: "sum_list (map (lineValue sampleStore) sampleSale) = 61"
    by (simp add: sampleSale_def lineValue_def g) (simp add: shirt_def mug_def)
  have s: "variantStock shirt ''v1'' = Some 5" "p_totalQuantity mug = 10"
    by (simp_all add: variantStock_def shirt_def mug_def)
  from sale_completes[OF h1 h2 h3, of sampleStamp "''Efectivo''" "''t2''"
      "''2025-06-15T12:00:05.000Z''"]
  obtain request w1 t where r:
    "handleSubmit (recordSale ''t2'' ''2025-06-15T12:00:05.000Z'') sampleStamp [cap, mug, shirt]
        sampleSale ''Efectivo'' sampleStore =
       (Inr (Some request), recordSale ''t2'' ''2025-06-15T12:00:05.000Z'' request w1)"
    "transactions (recordSale ''t2'' ''2025-06-15T12:00:05.000Z'' request w1) =
       transactions sampleStore @ [t]"
    "t_type t = Inflow"
    "t_amount t = sum_list (map (lineValue sampleStore) sampleSale)"
    and sold: "\<forall>(productId, line) \<in> set sampleSale.
              \<exists>before after.
                getProductById productId sampleStore = Some before \<and>
                getProductById productId
                  (recordSale ''t2'' ''2025-06-15T12:00:05.000Z'' request w1) = Some after \<and>
                lineSold line before after"
    by blast
  from sold
  have "\<exists>after. getProductById ''p1''
                  (recordSale ''t2'' ''2025-06-15T12:00:05.000Z'' request w1) = Some after \<and>
                variantStock after ''v1'' = Some 3"
    using g s by (auto simp: sampleSale_def lineSold_def truthy_def)
  moreover from sold
  have "\<exists>after. getProductById ''p2''
                  (recordSale ''t2'' ''2025-06-15T12:00:05.000Z'' request w1) = Some after \<and>
                p_totalQuantity after = 7"
    using g s by (auto simp: sampleSale_def lineSold_def truthy_def)
  ultimately show ?thesis using h1 h2 g f l r v by auto
qed

end
